theory Spec2Isabelle
  imports Complex_Main "HOL-Library.Log_Nat"
begin

section \<open>JavaScript values\<close>

text \<open>
  The payment backend is JavaScript: request bodies and the JSONB stop lists carry
  dynamically typed values, and the controller tests them for truthiness
  (\<^verbatim>\<open>if (route_id && origin_stop && gps_latitude && gps_longitude)\<close>,
  \<^verbatim>\<open>if (!stop.latitude || !stop.longitude) continue\<close>). Identifiers are modelled by
  \<open>jsval\<close>: \<open>JNull\<close> stands for an absent field (\<^verbatim>\<open>undefined\<close> or \<^verbatim>\<open>null\<close>),
  \<open>JNum\<close> for a number and \<open>JStr\<close> for a string. A coordinate or an amount is a
  number when present; an optional number is a \<open>real option\<close>. IEEE doubles are
  idealised as reals everywhere except in the last section, which models the
  rounding of binary64 arithmetic explicitly.
\<close>

datatype jsval = JNull | JNum real | JStr string

fun truthy :: "jsval \<Rightarrow> bool" where
  "truthy JNull = False"
| "truthy (JNum x) = (x \<noteq> 0)"
| "truthy (JStr s) = (s \<noteq> [])"

definition truthy_num :: "real option \<Rightarrow> bool" where
  "truthy_num v = (case v of None \<Rightarrow> False | Some x \<Rightarrow> x \<noteq> 0)"

text \<open>\<^verbatim>\<open>v || null\<close>\<close>

definition or_null :: "jsval \<Rightarrow> jsval" where
  "or_null v = (if truthy v then v else JNull)"

definition or_null_num :: "real option \<Rightarrow> real option" where
  "or_null_num v = (if truthy_num v then v else None)"

section \<open>utils/gps.js\<close>

text \<open>\<^verbatim>\<open>Math.atan2(y, x)\<close> and \<^verbatim>\<open>Math.round\<close> (halves go up).\<close>

definition atan2 :: "real \<Rightarrow> real \<Rightarrow> real" where
  "atan2 y x =
     (if 0 < x then arctan (y / x)
      else if x < 0 \<and> 0 \<le> y then arctan (y / x) + pi
      else if x < 0 then arctan (y / x) - pi
      else if 0 < y then pi / 2
      else if y < 0 then - (pi / 2)
      else 0)"

definition Math_round :: "real \<Rightarrow> int" where
  "Math_round x = \<lfloor>x + 1 / 2\<rfloor>"

definition calculateDistance :: "real \<Rightarrow> real \<Rightarrow> real \<Rightarrow> real \<Rightarrow> int" where
  "calculateDistance lat1 lon1 lat2 lon2 =
     (let R = 6371000;
          phi1 = lat1 * pi / 180;
          phi2 = lat2 * pi / 180;
          dphi = (lat2 - lat1) * pi / 180;
          dlam = (lon2 - lon1) * pi / 180;
          a = sin (dphi / 2) * sin (dphi / 2) +
              cos phi1 * cos phi2 * sin (dlam / 2) * sin (dlam / 2);
          c = 2 * atan2 (sqrt a) (sqrt (1 - a));
          distance = R * c
      in Math_round distance)"

text \<open>A stop of a route's JSONB \<^verbatim>\<open>stops\<close> array.\<close>

record stop =
  stop_id :: jsval
  stop_name :: string
  latitude :: "real option"
  longitude :: "real option"

text \<open>
  The test \<^verbatim>\<open>stop.latitude && stop.longitude\<close>, giving the two numbers when it
  passes: a coordinate that is absent or equal to 0 fails it.
\<close>

definition coords :: "stop \<Rightarrow> (real \<times> real) option" where
  "coords s =
     (case latitude s of
        None \<Rightarrow> None
      | Some la \<Rightarrow>
          (case longitude s of
             None \<Rightarrow> None
           | Some lo \<Rightarrow> if la \<noteq> 0 \<and> lo \<noteq> 0 then Some (la, lo) else None))"

text \<open>
  The loop of \<^verbatim>\<open>findNearestStop\<close>. The accumulator holds \<^verbatim>\<open>nearest\<close> together
  with \<^verbatim>\<open>minDistance\<close>; \<open>None\<close> is the initial \<^verbatim>\<open>null\<close> / \<^verbatim>\<open>Infinity\<close>.
\<close>

fun nearest_scan :: "real \<Rightarrow> real \<Rightarrow> stop list \<Rightarrow> (stop \<times> int) option \<Rightarrow> (stop \<times> int) option" where
  "nearest_scan lat lon [] nearest = nearest"
| "nearest_scan lat lon (s # ss) nearest =
     (case coords s of
        None \<Rightarrow> nearest_scan lat lon ss nearest
      | Some (la, lo) \<Rightarrow>
          (let distance = calculateDistance lat lon la lo in
           if (case nearest of None \<Rightarrow> True | Some (m, minDistance) \<Rightarrow> distance < minDistance)
           then nearest_scan lat lon ss (Some (s, distance))
           else nearest_scan lat lon ss nearest))"

definition findNearestStop :: "real \<Rightarrow> real \<Rightarrow> stop list \<Rightarrow> (stop \<times> int) option" where
  "findNearestStop lat lon stops =
     (if stops = [] then None else nearest_scan lat lon stops None)"

section \<open>scanQR: the destinations after the detected origin\<close>




section \<open>The store\<close>

text \<open>
  The Supabase tables the two payment paths touch. \<^verbatim>\<open>users\<close>, \<^verbatim>\<open>devices\<close>,
  \<^verbatim>\<open>merchants\<close> and \<^verbatim>\<open>routes\<close> are read by primary key, so each is a map from
  the key to the row (a device row carries its joined merchant, as the controller
  selects it); \<^verbatim>\<open>transactions\<close>, \<^verbatim>\<open>fraud_alerts\<close>, \<^verbatim>\<open>notifications\<close> and
  \<^verbatim>\<open>audit_logs\<close> are appended to and kept as lists in insertion order. Only the
  columns the payment paths select or write are kept.
\<close>

record user =
  balance :: real
  pin_hash :: string
  user_status :: string

record merchant =
  business_name :: string
  matatu_plate :: "string option"
  commission_rate :: real

record device =
  dev_merchant_id :: string
  merchants :: "merchant option"

record route =
  route_stops :: "stop list option"

record txn =
  transaction_id :: string
  txn_user_id :: string
  txn_merchant_id :: jsval
  txn_device_id :: jsval
  transaction_type :: string
  txn_amount :: real
  currency :: string
  txn_route_id :: jsval
  txn_origin_stop :: jsval
  txn_destination_stop :: jsval
  txn_status :: string
  merchant_commission :: real
  net_amount :: real
  reference_code :: string
  gps_boarding_latitude :: "real option"
  gps_boarding_longitude :: "real option"
  auto_detected_origin :: bool
  nearest_stop_distance_meters :: "int option"
  user_balance_before :: real
  user_balance_after :: real
  processed_at :: nat
  created_at :: nat

record alert_details =
  det_gps_latitude :: real
  det_gps_longitude :: real
  selected_origin :: jsval
  distance_meters :: int

record fraud_alert =
  fa_user_id :: string
  fa_transaction_id :: "string option"
  alert_type :: string
  risk_score :: int
  alert_level :: string
  details :: alert_details

text \<open>
  The two queued notifications. The message is a template over the amount, the
  merchant's name and the new balance; the numbers are kept instead of their
  \<^verbatim>\<open>toFixed(2)\<close> rendering.
\<close>

datatype message = SmsPaid real string real | PushReceived real

record notification =
  n_user_id :: "string option"
  n_merchant_id :: "string option"
  n_transaction_id :: string
  notification_type :: string
  recipient :: string
  n_message :: message
  n_status :: string

text \<open>The audit log written by the route of \<^verbatim>\<open>routes/payment.js\<close>.\<close>

record audit_log =
  log_id :: string
  al_user_id :: string
  action :: string
  entity_type :: string
  entity_id :: string
  al_amount :: real
  al_merchant_id :: jsval
  al_reference :: string
  ip_address :: string
  al_created_at :: nat

record store =
  users :: "string \<rightharpoonup> user"
  devices :: "string \<rightharpoonup> device"
  merchant_rows :: "jsval \<rightharpoonup> merchant"
  routes :: "jsval \<rightharpoonup> route"
  transactions :: "txn list"
  fraud_alerts :: "fraud_alert list"
  notifications :: "notification list"
  audit_logs :: "audit_log list"

text \<open>
  PostgREST's \<^verbatim>\<open>.single()\<close>: the row when the query matches exactly one, and an
  error (\<^verbatim>\<open>data\<close> null) otherwise.
\<close>

definition single :: "'a list \<Rightarrow> 'a option" where
  "single xs = (case xs of [x] \<Rightarrow> Some x | _ \<Rightarrow> None)"

section \<open>The request, its environment and the response\<close>

text \<open>\<^verbatim>\<open>req.user\<close> (from the token) and \<^verbatim>\<open>req.body\<close>.\<close>

record request =
  user_id :: string
  phone_number :: string
  device_id :: string
  route_id :: jsval
  origin_stop :: jsval
  destination_stop :: jsval
  amount :: real
  pin :: string
  idempotency_key :: string
  gps_latitude :: "real option"
  gps_longitude :: "real option"

text \<open>
  What one run of the handler takes from outside the store: the opaque
  \<^verbatim>\<open>bcrypt.compare\<close>, \<^verbatim>\<open>parseInt(process.env.GPS_MAX_DISTANCE_METERS)\<close> (\<open>None\<close> is
  \<^verbatim>\<open>NaN\<close>: the variable is unset or not a number), \<^verbatim>\<open>uuidv4()\<close>, the two clocks, and
  whether the two writes of the commit step come back with an error. These are the store
  errors the source inspects: \<^verbatim>\<open>txnError\<close> in the controller and in the route, and
  \<^verbatim>\<open>balanceError\<close> in the route (the controller makes the same call and drops its
  result).
\<close>

record env =
  bcrypt_compare :: "string \<Rightarrow> string \<Rightarrow> bool"
  GPS_MAX_DISTANCE_METERS :: "int option"
  uuidv4 :: string
  date_now :: nat
  db_now :: nat
  txnError :: bool
  balanceError :: bool

datatype ErrorCodes =
    USER_NOT_FOUND | ACCOUNT_SUSPENDED | INVALID_PIN | INSUFFICIENT_BALANCE
  | INVALID_QR | ORIGIN_MISMATCH | SERVER_ERROR

record receipt =
  rc_transaction_id :: string
  rc_status :: string
  rc_amount :: real
  merchant_name :: string
  merchant_plate :: "string option"
  rc_origin :: jsval
  rc_destination :: jsval
  balance_before :: real
  balance_after :: real
  timestamp :: nat
  reference :: string

text \<open>
  The \<^verbatim>\<open>data\<close> of a success: the three selected columns of an existing transaction,
  or the receipt of a new one.
\<close>

datatype data = ExistingTxn string string real | Receipt receipt

text \<open>\<^verbatim>\<open>sendSuccess(res, data, message, statusCode)\<close> and
  \<^verbatim>\<open>sendError(res, message, code, statusCode)\<close>.\<close>

datatype response = sendSuccess data string nat | sendError string ErrorCodes nat

section \<open>processPayment (controllers/paymentController.js)\<close>

text \<open>The idempotency lookup: the transaction whose reference code is the key.\<close>

definition existingTxn :: "store \<Rightarrow> string \<Rightarrow> txn option" where
  "existingTxn s key = single (filter (\<lambda>t. reference_code t = key) (transactions s))"

text \<open>\<^verbatim>\<open>parseInt(process.env.GPS_MAX_DISTANCE_METERS) || 500\<close>\<close>

definition maxDistance :: "env \<Rightarrow> int" where
  "maxDistance e =
     (case GPS_MAX_DISTANCE_METERS e of
        None \<Rightarrow> 500
      | Some n \<Rightarrow> if n = 0 then 500 else n)"

text \<open>
  The GPS fraud check (lines 276-329): either the mismatch branch is taken, with the
  computed distance, or the handler goes on with the value of
  \<^verbatim>\<open>nearest_stop_distance_meters\<close>.
\<close>

datatype gate = Mismatch real real int | GoOn "int option"

definition fraud_check :: "env \<Rightarrow> request \<Rightarrow> store \<Rightarrow> gate" where
  "fraud_check e req s =
     (case (gps_latitude req, gps_longitude req) of
        (Some glat, Some glon) \<Rightarrow>
          if truthy (route_id req) \<and> truthy (origin_stop req) \<and> glat \<noteq> 0 \<and> glon \<noteq> 0 then
            (case routes s (route_id req) of
               None \<Rightarrow> GoOn None
             | Some r \<Rightarrow>
                 (let ss = (case route_stops r of None \<Rightarrow> [] | Some xs \<Rightarrow> xs) in
                  case find (\<lambda>st. stop_id st = origin_stop req) ss of
                    None \<Rightarrow> GoOn None
                  | Some selectedStop \<Rightarrow>
                      (case coords selectedStop of
                         None \<Rightarrow> GoOn None
                       | Some (slat, slon) \<Rightarrow>
                           (let distance = calculateDistance glat glon slat slon in
                            if maxDistance e < distance then Mismatch glat glon distance
                            else GoOn (Some distance)))))
          else GoOn None
      | _ \<Rightarrow> GoOn None)"

text \<open>The alert inserted on a mismatch (lines 306-318).\<close>

definition suspicious_origin_alert :: "request \<Rightarrow> real \<Rightarrow> real \<Rightarrow> int \<Rightarrow> fraud_alert" where
  "suspicious_origin_alert req glat glon distance =
     \<lparr>fa_user_id = user_id req,
      fa_transaction_id = None,
      alert_type = ''suspicious_origin'',
      risk_score = 75,
      alert_level = ''high'',
      details = \<lparr>det_gps_latitude = glat, det_gps_longitude = glon,
                 selected_origin = origin_stop req, distance_meters = distance\<rparr>\<rparr>"

text \<open>The row of the insert into \<^verbatim>\<open>transactions\<close> (lines 338-360).\<close>

definition new_transaction :: "env \<Rightarrow> request \<Rightarrow> user \<Rightarrow> device \<Rightarrow> merchant \<Rightarrow> int option \<Rightarrow> txn" where
  "new_transaction e req u d m nearest =
     (let commission = amount req * commission_rate m;
          net = amount req - commission;
          auto_detected = True;
          before = balance u;
          after = before - amount req
      in \<lparr>transaction_id = uuidv4 e,
          txn_user_id = user_id req,
          txn_merchant_id = JStr (dev_merchant_id d),
          txn_device_id = JStr (device_id req),
          transaction_type = ''payment'',
          txn_amount = amount req,
          currency = ''KES'',
          txn_route_id = or_null (route_id req),
          txn_origin_stop = or_null (origin_stop req),
          txn_destination_stop = or_null (destination_stop req),
          txn_status = ''success'',
          merchant_commission = commission,
          net_amount = net,
          reference_code = idempotency_key req,
          gps_boarding_latitude = or_null_num (gps_latitude req),
          gps_boarding_longitude = or_null_num (gps_longitude req),
          auto_detected_origin = auto_detected,
          nearest_stop_distance_meters = nearest,
          user_balance_before = before,
          user_balance_after = after,
          processed_at = date_now e,
          created_at = db_now e\<rparr>)"

text \<open>\<^verbatim>\<open>supabase.from('users').update({ balance: v }).eq('user_id', uid)\<close>\<close>

definition update_balance :: "string \<Rightarrow> real \<Rightarrow> store \<Rightarrow> store" where
  "update_balance uid v s =
     s\<lparr>users := (users s)(uid := map_option (\<lambda>u. u\<lparr>balance := v\<rparr>) (users s uid))\<rparr>"

definition queued_notifications :: "request \<Rightarrow> device \<Rightarrow> merchant \<Rightarrow> txn \<Rightarrow> notification list" where
  "queued_notifications req d m t =
     [\<lparr>n_user_id = Some (user_id req), n_merchant_id = None,
       n_transaction_id = transaction_id t, notification_type = ''sms'',
       recipient = phone_number req,
       n_message = SmsPaid (amount req) (business_name m) (user_balance_after t),
       n_status = ''queued''\<rparr>,
      \<lparr>n_user_id = None, n_merchant_id = Some (dev_merchant_id d),
       n_transaction_id = transaction_id t, notification_type = ''push'',
       recipient = ''merchant_device_token'',
       n_message = PushReceived (amount req),
       n_status = ''queued''\<rparr>]"

text \<open>
  The commit step (lines 331-412): insert the transaction, give up on
  \<^verbatim>\<open>txnError\<close>, update the balance (the result of the update is not looked at),
  queue the notifications, answer 201.
\<close>

definition commit :: "env \<Rightarrow> request \<Rightarrow> user \<Rightarrow> device \<Rightarrow> merchant \<Rightarrow> int option \<Rightarrow> store \<Rightarrow> response \<times> store" where
  "commit e req u d m nearest s =
     (let t = new_transaction e req u d m nearest in
      if txnError e then (sendError ''Payment failed'' SERVER_ERROR 500, s)
      else
        (let s1 = s\<lparr>transactions := transactions s @ [t]\<rparr>;
             s2 = (if balanceError e then s1
                   else update_balance (user_id req) (user_balance_after t) s1);
             s3 = s2\<lparr>notifications := notifications s2 @ queued_notifications req d m t\<rparr>
         in (sendSuccess
               (Receipt \<lparr>rc_transaction_id = transaction_id t,
                         rc_status = ''success'',
                         rc_amount = amount req,
                         merchant_name = business_name m,
                         merchant_plate = matatu_plate m,
                         rc_origin = origin_stop req,
                         rc_destination = destination_stop req,
                         balance_before = user_balance_before t,
                         balance_after = user_balance_after t,
                         timestamp = created_at t,
                         reference = idempotency_key req\<rparr>)
               ''Payment successful'' 201, s3)))"

text \<open>
  The handler, check by check in the order of the source. A device row without its
  joined merchant makes \<^verbatim>\<open>device.merchants.commission_rate\<close> throw, which the
  \<^verbatim>\<open>catch\<close> turns into the 500 answer.
\<close>

definition processPayment :: "env \<Rightarrow> request \<Rightarrow> store \<Rightarrow> response \<times> store" where
  "processPayment e req s =
     (case existingTxn s (idempotency_key req) of
        Some t \<Rightarrow>
          (sendSuccess (ExistingTxn (transaction_id t) (txn_status t) (txn_amount t))
             ''Transaction already processed'' 200, s)
      | None \<Rightarrow>
          (case users s (user_id req) of
             None \<Rightarrow> (sendError ''User not found'' USER_NOT_FOUND 404, s)
           | Some u \<Rightarrow>
               if user_status u \<noteq> ''active'' then
                 (sendError ''Account is not active'' ACCOUNT_SUSPENDED 403, s)
               else if \<not> bcrypt_compare e (pin req) (pin_hash u) then
                 (sendError ''Incorrect PIN'' INVALID_PIN 401, s)
               else if balance u < amount req then
                 (sendError ''Insufficient balance'' INSUFFICIENT_BALANCE 400, s)
               else
                 (case devices s (device_id req) of
                    None \<Rightarrow> (sendError ''Invalid device'' INVALID_QR 404, s)
                  | Some d \<Rightarrow>
                      (case merchants d of
                         None \<Rightarrow> (sendError ''Server error during payment'' SERVER_ERROR 500, s)
                       | Some m \<Rightarrow>
                           (case fraud_check e req s of
                              Mismatch glat glon distance \<Rightarrow>
                                (sendError
                                   ''Origin location mismatch detected. Please verify your boarding point.''
                                   ORIGIN_MISMATCH 400,
                                 s\<lparr>fraud_alerts := fraud_alerts s @
                                      [suspicious_origin_alert req glat glon distance]\<rparr>)
                            | GoOn nearest \<Rightarrow> commit e req u d m nearest s)))))"

section \<open>The route of routes/payment.js\<close>

text \<open>
  The second payment path, \<^verbatim>\<open>router.post('/process', ...)\<close>: no idempotency lookup
  and no fraud check. Its body names the merchant itself; an absent \<^verbatim>\<open>amount\<close> is
  \<open>None\<close> and an absent \<^verbatim>\<open>pin\<close> the empty string, both falsy like 0.
\<close>

record pay_body =
  b_user_id :: string
  b_ip :: string
  b_merchant_id :: jsval
  b_device_id :: jsval
  b_destination_stop :: jsval
  b_amount :: "real option"
  b_pin :: string
  b_gps_latitude :: "real option"
  b_gps_longitude :: "real option"
  b_route_id :: jsval
  b_origin_stop :: jsval

text \<open>
  \<^verbatim>\<open>bcrypt.compare\<close>, the two \<^verbatim>\<open>crypto.randomUUID()\<close>, \<^verbatim>\<open>generateReferenceCode()\<close>,
  the readings of the clock, and the errors of the two writes, which the route names
  \<^verbatim>\<open>txError\<close> and \<^verbatim>\<open>balanceError\<close>.
\<close>

record route_env =
  r_bcrypt_compare :: "string \<Rightarrow> string \<Rightarrow> bool"
  randomUUID :: string
  log_randomUUID :: string
  generateReferenceCode :: string
  processed_now :: nat
  created_now :: nat
  logged_now :: nat
  txError :: bool
  r_balanceError :: bool

record pay_data =
  d_transaction_id :: string
  d_reference_code :: string
  d_amount :: real
  new_balance :: real
  d_timestamp :: nat

text \<open>\<^verbatim>\<open>res.status(code).json({ success: false, error })\<close> and
  \<^verbatim>\<open>res.status(code).json({ success: true, data })\<close>.\<close>

datatype pay_response = json_error nat string | json_data nat pay_data

text \<open>\<^verbatim>\<open>merchantData?.commission_rate || 0.05\<close>\<close>

definition commissionRate :: "store \<Rightarrow> jsval \<Rightarrow> real" where
  "commissionRate s mid =
     (case merchant_rows s mid of
        None \<Rightarrow> 0.05
      | Some m \<Rightarrow> if commission_rate m = 0 then 0.05 else commission_rate m)"

definition route_transaction :: "route_env \<Rightarrow> pay_body \<Rightarrow> real \<Rightarrow> user \<Rightarrow> store \<Rightarrow> txn" where
  "route_transaction e b amt u s =
     (let merchantCommission = amt * commissionRate s (b_merchant_id b);
          netAmount = amt - merchantCommission;
          balanceBefore = balance u;
          balanceAfter = balanceBefore - amt
      in \<lparr>transaction_id = randomUUID e,
          txn_user_id = b_user_id b,
          txn_merchant_id = b_merchant_id b,
          txn_device_id = b_device_id b,
          transaction_type = ''payment'',
          txn_amount = amt,
          currency = ''KES'',
          txn_route_id = b_route_id b,
          txn_origin_stop = (if truthy (b_origin_stop b) then b_origin_stop b else JStr ''Unknown''),
          txn_destination_stop = b_destination_stop b,
          txn_status = ''success'',
          merchant_commission = merchantCommission,
          net_amount = netAmount,
          reference_code = generateReferenceCode e,
          gps_boarding_latitude = b_gps_latitude b,
          gps_boarding_longitude = b_gps_longitude b,
          auto_detected_origin = (if truthy (b_origin_stop b) then True else False),
          nearest_stop_distance_meters = None,
          user_balance_before = balanceBefore,
          user_balance_after = balanceAfter,
          processed_at = processed_now e,
          created_at = created_now e\<rparr>)"

definition route_process :: "route_env \<Rightarrow> pay_body \<Rightarrow> store \<Rightarrow> pay_response \<times> store" where
  "route_process e b s =
     (case b_amount b of
        None \<Rightarrow> (json_error 400 ''Missing required fields'', s)
      | Some amt \<Rightarrow>
          if \<not> truthy (b_merchant_id b) \<or> amt = 0 \<or> b_pin b = [] then
            (json_error 400 ''Missing required fields'', s)
          else
            (case users s (b_user_id b) of
               None \<Rightarrow> (json_error 404 ''User not found'', s)
             | Some u \<Rightarrow>
                 if \<not> r_bcrypt_compare e (b_pin b) (pin_hash u) then
                   (json_error 401 ''Invalid PIN'', s)
                 else if balance u < amt then
                   (json_error 400 ''Insufficient balance'', s)
                 else
                   (let t = route_transaction e b amt u s in
                    if txError e then (json_error 500 ''Failed to create transaction'', s)
                    else
                      (let s1 = s\<lparr>transactions := transactions s @ [t]\<rparr>;
                           s2 = (if r_balanceError e then s1
                                 else update_balance (b_user_id b) (user_balance_after t) s1);
                           s3 = s2\<lparr>audit_logs := audit_logs s2 @
                                  [\<lparr>log_id = log_randomUUID e,
                                    al_user_id = b_user_id b,
                                    action = ''payment_processed'',
                                    entity_type = ''transaction'',
                                    entity_id = transaction_id t,
                                    al_amount = amt,
                                    al_merchant_id = b_merchant_id b,
                                    al_reference = generateReferenceCode e,
                                    ip_address = b_ip b,
                                    al_created_at = logged_now e\<rparr>]\<rparr>
                       in (json_data 200
                             \<lparr>d_transaction_id = transaction_id t,
                              d_reference_code = generateReferenceCode e,
                              d_amount = amt,
                              new_balance = user_balance_after t,
                              d_timestamp = created_at t\<rparr>, s3)))))"

section \<open>The arithmetic of the commission split in binary64\<close>

text \<open>
  A JavaScript number is an IEEE 754 binary64 value, and \<^verbatim>\<open>*\<close>, \<^verbatim>\<open>-\<close> and \<^verbatim>\<open>+\<close>
  return the exact result rounded to the nearest such value, ties to the even
  significand. A finite double is written \<open>Double m e\<close> for the value
  \<open>m * 2 ^ e\<close>; \<open>round53\<close> rounds \<open>m * 2 ^ e\<close> to 53 significant bits. Only the
  normal range is modelled: no overflow, no subnormal numbers, no NaN and no
  infinities, which amounts and rates of a payment stay clear of.
\<close>

datatype double = Double int int

fun val :: "double \<Rightarrow> rat" where
  "val (Double m e) = (if 0 \<le> e then of_int m * 2 ^ nat e else of_int m / 2 ^ nat (- e))"

definition round53 :: "int \<Rightarrow> int \<Rightarrow> double" where
  "round53 m e =
     (let n = bitlen \<bar>m\<bar> in
      if n \<le> 53 then Double m e
      else
        (let sh = nat (n - 53);
             q = m div 2 ^ sh;
             r = m mod 2 ^ sh;
             half = 2 ^ (sh - 1)
         in Double (if r < half then q
                    else if half < r then q + 1
                    else if even q then q else q + 1)
              (e + int sh)))"

fun fmul :: "double \<Rightarrow> double \<Rightarrow> double" where
  "fmul (Double m1 e1) (Double m2 e2) = round53 (m1 * m2) (e1 + e2)"

fun fadd :: "double \<Rightarrow> double \<Rightarrow> double" where
  "fadd (Double m1 e1) (Double m2 e2) =
     (let e = min e1 e2
      in round53 (m1 * 2 ^ nat (e1 - e) + m2 * 2 ^ nat (e2 - e)) e)"

fun fsub :: "double \<Rightarrow> double \<Rightarrow> double" where
  "fsub (Double m1 e1) (Double m2 e2) =
     (let e = min e1 e2
      in round53 (m1 * 2 ^ nat (e1 - e) - m2 * 2 ^ nat (e2 - e)) e)"

text \<open>
  Lines 272-274 of the controller, on doubles:
  \<^verbatim>\<open>merchant_commission = amount * commission_rate\<close> and
  \<^verbatim>\<open>net_amount = amount - merchant_commission\<close>.
\<close>

definition merchant_commission64 :: "double \<Rightarrow> double \<Rightarrow> double" where
  "merchant_commission64 amt rate = fmul amt rate"

definition net_amount64 :: "double \<Rightarrow> double \<Rightarrow> double" where
  "net_amount64 amt rate = fsub amt (merchant_commission64 amt rate)"

section \<open>Path conditions and sequences of charges\<close>

text \<open>
  The checks of \<^verbatim>\<open>processPayment\<close> before the GPS fraud check, all passed: no
  transaction carries the reference code, the user exists and is active, the PIN
  matches, the balance is not below the amount, and the device and its merchant are
  found.
\<close>

definition passes_checks :: "env \<Rightarrow> request \<Rightarrow> store \<Rightarrow> user \<Rightarrow> device \<Rightarrow> merchant \<Rightarrow> bool" where
  "passes_checks e req s u d m =
     (existingTxn s (idempotency_key req) = None \<and>
      users s (user_id req) = Some u \<and>
      user_status u = ''active'' \<and>
      bcrypt_compare e (pin req) (pin_hash u) \<and>
      \<not> balance u < amount req \<and>
      devices s (device_id req) = Some d \<and>
      merchants d = Some m)"

text \<open>
  The checks of the route of \<^verbatim>\<open>routes/payment.js\<close> before its insert, all passed.
\<close>

definition route_passes :: "route_env \<Rightarrow> pay_body \<Rightarrow> store \<Rightarrow> real \<Rightarrow> user \<Rightarrow> bool" where
  "route_passes e b s amt u =
     (b_amount b = Some amt \<and> truthy (b_merchant_id b) \<and> amt \<noteq> 0 \<and> b_pin b \<noteq> [] \<and>
      users s (b_user_id b) = Some u \<and>
      r_bcrypt_compare e (b_pin b) (pin_hash u) \<and>
      \<not> balance u < amt)"

text \<open>A charge went through when the handler answered with the receipt of a new transaction.\<close>

definition paid :: "response \<Rightarrow> bool" where
  "paid r = (case r of sendSuccess (Receipt rc) msg code \<Rightarrow> True | _ \<Rightarrow> False)"



section \<open>Sample data\<close>

text \<open>
  A route along the meridian 36.8172 E and a rider whose fix is at 1.2864 S. CBD and
  Kencom are 0.0045 degrees of latitude from the fix on either side, Ngara 0.004505
  and Westlands 0.0054; the depot has no coordinates and the last stop lies on the
  equator.
\<close>

definition depot :: stop where
  "depot = \<lparr>stop_id = JStr ''depot'', stop_name = ''Depot'', latitude = None, longitude = None\<rparr>"

definition cbd :: stop where
  "cbd = \<lparr>stop_id = JStr ''cbd'', stop_name = ''CBD'',
           latitude = Some (- 1.2819), longitude = Some 36.8172\<rparr>"

definition kencom :: stop where
  "kencom = \<lparr>stop_id = JStr ''kencom'', stop_name = ''Kencom'',
              latitude = Some (- 1.2909), longitude = Some 36.8172\<rparr>"

definition ngara :: stop where
  "ngara = \<lparr>stop_id = JStr ''ngara'', stop_name = ''Ngara'',
             latitude = Some (- 1.281895), longitude = Some 36.8172\<rparr>"

definition westlands :: stop where
  "westlands = \<lparr>stop_id = JStr ''westlands'', stop_name = ''Westlands'',
                 latitude = Some (- 1.2810), longitude = Some 36.8172\<rparr>"

definition equator :: stop where
  "equator = \<lparr>stop_id = JStr ''equator'', stop_name = ''Equator'',
               latitude = Some 0, longitude = Some 36.8172\<rparr>"

definition alice :: user where
  "alice = \<lparr>balance = 1000, pin_hash = ''hash-1234'', user_status = ''active''\<rparr>"

definition matatu :: merchant where
  "matatu = \<lparr>business_name = ''Route 111 Sacco'', matatu_plate = Some ''KBX 111A'',
              commission_rate = 5 / 100\<rparr>"

definition reader :: device where
  "reader = \<lparr>dev_merchant_id = ''m1'', merchants = Some matatu\<rparr>"

definition store0 :: store where
  "store0 =
     \<lparr>users = [''u1'' \<mapsto> alice],
      devices = [''d1'' \<mapsto> reader],
      merchant_rows = [JStr ''m1'' \<mapsto> matatu],
      routes = [JStr ''r111'' \<mapsto>
                  \<lparr>route_stops = Some [depot, cbd, kencom, ngara, westlands, equator]\<rparr>],
      transactions = [], fraud_alerts = [], notifications = [], audit_logs = []\<rparr>"

definition env0 :: env where
  "env0 =
     \<lparr>bcrypt_compare = (\<lambda>p h. h = ''hash-'' @ p), GPS_MAX_DISTANCE_METERS = None,
      uuidv4 = ''txn-1'', date_now = 1000, db_now = 1001,
      txnError = False, balanceError = False\<rparr>"

text \<open>
  A fare of 50 on route 111 from the claimed origin, paid by Alice with reference code R1;
  the fix, when there is one, is on the meridian of the route at the given latitude.
\<close>

definition fare :: "jsval \<Rightarrow> real option \<Rightarrow> request" where
  "fare org glat =
     \<lparr>user_id = ''u1'', phone_number = ''+254700000001'', device_id = ''d1'',
      route_id = JStr ''r111'', origin_stop = org, destination_stop = JStr ''kawangware'',
      amount = 50, pin = ''1234'', idempotency_key = ''R1'',
      gps_latitude = glat,
      gps_longitude = (case glat of None \<Rightarrow> None | Some x \<Rightarrow> Some 36.8172)\<rparr>"




text \<open>The same fare for the route of \<^verbatim>\<open>routes/payment.js\<close>.\<close>

definition renv0 :: route_env where
  "renv0 =
     \<lparr>r_bcrypt_compare = (\<lambda>p h. h = ''hash-'' @ p), randomUUID = ''txn-2'',
      log_randomUUID = ''log-1'', generateReferenceCode = ''EMX1'',
      processed_now = 2000, created_now = 2001, logged_now = 2002,
      txError = False, r_balanceError = False\<rparr>"

definition body0 :: pay_body where
  "body0 =
     \<lparr>b_user_id = ''u1'', b_ip = ''10.0.0.1'', b_merchant_id = JStr ''m1'',
      b_device_id = JStr ''d1'', b_destination_stop = JStr ''kawangware'',
      b_amount = Some 50, b_pin = ''1234'',
      b_gps_latitude = None, b_gps_longitude = None,
      b_route_id = JStr ''r111'', b_origin_stop = JStr ''cbd''\<rparr>"

text \<open>The doubles nearest to 12.40 and to 0.05, and the double 50.\<close>

definition kes_12_40 :: double where
  "kes_12_40 = Double 6980579422424269 (- 49)"

definition kes_50 :: double where
  "kes_50 = Double 50 0"

definition five_percent :: double where
  "five_percent = Double 3602879701896397 (- 56)"

section \<open>Distances along a meridian\<close>

text \<open>
  Machin's formula and the alternating series of the arc tangent bound \<open>pi\<close> tightly
  enough to evaluate \<^verbatim>\<open>calculateDistance\<close> between points of one meridian.
\<close>

lemma arctan_partial_sums:
  fixes x :: real
  assumes "0 < x" "x \<le> 1"
  shows "(\<Sum>i<2*n. (- 1)^i * (1 / real (i * 2 + 1) * x^(i * 2 + 1))) \<le> arctan x"
    and "arctan x \<le> (\<Sum>i<2*n+1. (- 1)^i * (1 / real (i * 2 + 1) * x^(i * 2 + 1)))"
proof -
  have ax: "\<bar>x\<bar> \<le> 1" using assms by simp
  have pos: "0 < 1 / real (0 * 2 + 1) * x^(0 * 2 + 1)" using assms by simp
  from summable_Leibniz(2) [OF zeroseq_arctan_series [OF ax] monoseq_arctan_series [OF ax]] pos
  have "\<forall>n. (\<Sum>i. (- 1)^i * (1 / real (i * 2 + 1) * x^(i * 2 + 1)))
          \<in> {\<Sum>i<2*n. (- 1)^i * (1 / real (i * 2 + 1) * x^(i * 2 + 1)) ..
              \<Sum>i<2*n+1. (- 1)^i * (1 / real (i * 2 + 1) * x^(i * 2 + 1))}"
    by blast
  then show "(\<Sum>i<2*n. (- 1)^i * (1 / real (i * 2 + 1) * x^(i * 2 + 1))) \<le> arctan x"
    and "arctan x \<le> (\<Sum>i<2*n+1. (- 1)^i * (1 / real (i * 2 + 1) * x^(i * 2 + 1)))"
    unfolding arctan_series [OF ax] by auto
qed

lemma arctan_fifth:
  "197395 / 1000000 < arctan (1 / 5 :: real)" "arctan (1 / 5 :: real) < 197398 / 1000000"
proof -
  have l: "(\<Sum>i<2*2. (- 1)^i * (1 / real (i * 2 + 1) * (1 / 5 :: real)^(i * 2 + 1))) \<le> arctan (1 / 5)"
    by (rule arctan_partial_sums) simp_all
  have u: "arctan (1 / 5 :: real) \<le> (\<Sum>i<2*1+1. (- 1)^i * (1 / real (i * 2 + 1) * (1 / 5 :: real)^(i * 2 + 1)))"
    by (rule arctan_partial_sums) simp_all
  have l': "(\<Sum>i<2*2. (- 1)^i * (1 / real (i * 2 + 1) * (1 / 5 :: real)^(i * 2 + 1)))
              = 1/5 - 1/(3 * 5^3) + 1/(5 * 5^5) - 1/(7 * 5^7)"
    by (simp add: eval_nat_numeral)
  have u': "(\<Sum>i<2*1+1. (- 1)^i * (1 / real (i * 2 + 1) * (1 / 5 :: real)^(i * 2 + 1)))
              = 1/5 - 1/(3 * 5^3) + 1/(5 * 5^5)"
    by (simp add: eval_nat_numeral)
  show "197395 / 1000000 < arctan (1 / 5 :: real)" using l unfolding l' by simp
  show "arctan (1 / 5 :: real) < 197398 / 1000000" using u unfolding u' by simp
qed

lemma arctan_239:
  "41840 / 10000000 < arctan (1 / 239 :: real)" "arctan (1 / 239 :: real) < 41842 / 10000000"
proof -
  have l: "(\<Sum>i<2*1. (- 1)^i * (1 / real (i * 2 + 1) * (1 / 239 :: real)^(i * 2 + 1))) \<le> arctan (1 / 239)"
    by (rule arctan_partial_sums) simp_all
  have u: "arctan (1 / 239 :: real) \<le> (\<Sum>i<2*0+1. (- 1)^i * (1 / real (i * 2 + 1) * (1 / 239 :: real)^(i * 2 + 1)))"
    by (rule arctan_partial_sums) simp_all
  have l': "(\<Sum>i<2*1. (- 1)^i * (1 / real (i * 2 + 1) * (1 / 239 :: real)^(i * 2 + 1)))
              = 1/239 - 1/(3 * 239^3)"
    by (simp add: eval_nat_numeral)
  have u': "(\<Sum>i<2*0+1. (- 1)^i * (1 / real (i * 2 + 1) * (1 / 239 :: real)^(i * 2 + 1))) = 1/239"
    by simp
  show "41840 / 10000000 < arctan (1 / 239 :: real)" using l unfolding l' by simp
  show "arctan (1 / 239 :: real) < 41842 / 10000000" using u unfolding u' by simp
qed

lemma pi_bounds: "31415 / 10000 < pi" "pi < 31417 / 10000"
proof -
  have m: "pi = 16 * arctan (1 / 5) - 4 * arctan (1 / 239)" using machin by simp
  show "31415 / 10000 < pi" using arctan_fifth(1) arctan_239(2) unfolding m by simp
  show "pi < 31417 / 10000" using arctan_fifth(2) arctan_239(1) unfolding m by simp
qed

lemma atan2_abs_sin_cos:
  assumes "- (pi / 2) < t" "t < pi / 2"
  shows "atan2 (sqrt (sin t * sin t)) (sqrt (1 - sin t * sin t)) = \<bar>t\<bar>"
proof -
  have c: "0 < cos t" using assms by (rule cos_gt_zero_pi)
  have "1 - sin t * sin t = cos t * cos t"
    using sin_cos_squared_add [of t] by (simp add: power2_eq_square algebra_simps)
  then have s2: "sqrt (1 - sin t * sin t) = cos t" using c by simp
  have s1: "sqrt (sin t * sin t) = \<bar>sin t\<bar>" by simp
  have "arctan (\<bar>sin t\<bar> / cos t) = \<bar>t\<bar>"
  proof (cases "0 \<le> t")
    case True
    then have "0 \<le> sin t" using assms sin_ge_zero [of t] pi_gt_zero by linarith
    then have "\<bar>sin t\<bar> / cos t = tan t" by (simp add: tan_def)
    then show ?thesis using arctan_tan [OF assms] True by simp
  next
    case False
    then have neg: "t < 0" by simp
    have "0 \<le> sin (- t)" using assms neg sin_ge_zero [of "- t"] pi_gt_zero by linarith
    then have "\<bar>sin t\<bar> = - sin t" by simp
    then have "\<bar>sin t\<bar> / cos t = tan (- t)" by (simp add: tan_def)
    moreover have "arctan (tan (- t)) = - t" using assms by (intro arctan_tan) auto
    ultimately show ?thesis using neg by simp
  qed
  then show ?thesis using c by (simp add: atan2_def s1 s2)
qed

lemma calculateDistance_meridian:
  assumes "\<bar>lat2 - lat1\<bar> < 180"
  shows "calculateDistance lat1 lon lat2 lon = Math_round (6371000 * (\<bar>lat2 - lat1\<bar> * pi / 180))"
proof -
  let ?t = "(lat2 - lat1) * pi / 180 / 2"
  have "\<bar>?t\<bar> < pi / 2"
  proof -
    have "\<bar>lat2 - lat1\<bar> * pi < 180 * pi"
      using assms pi_gt_zero by (simp only: mult_less_cancel_right_pos)
    then show ?thesis by (simp add: abs_mult)
  qed
  then have b: "- (pi / 2) < ?t" "?t < pi / 2" by (simp_all only: abs_less_iff) linarith+
  have "calculateDistance lat1 lon lat2 lon =
          Math_round (6371000 * (2 * atan2 (sqrt (sin ?t * sin ?t)) (sqrt (1 - sin ?t * sin ?t))))"
    by (simp add: calculateDistance_def Let_def)
  also have "\<dots> = Math_round (6371000 * (2 * \<bar>?t\<bar>))"
    by (simp only: atan2_abs_sin_cos [OF b])
  also have "\<dots> = Math_round (6371000 * (\<bar>lat2 - lat1\<bar> * pi / 180))"
    by (simp add: abs_mult)
  finally show ?thesis .
qed

lemma Math_round_eq:
  "real_of_int n - 1 / 2 \<le> x \<Longrightarrow> x < real_of_int n + 1 / 2 \<Longrightarrow> Math_round x = n"
  unfolding Math_round_def by linarith

lemma dist_500:
  "\<bar>lat2 - lat1\<bar> = 9 / 2000 \<Longrightarrow> calculateDistance lat1 lon lat2 lon = 500"
proof -
  assume d: "\<bar>lat2 - lat1\<bar> = 9 / 2000"
  then have lt: "\<bar>lat2 - lat1\<bar> < 180" by simp
  have "calculateDistance lat1 lon lat2 lon = Math_round (6371000 * (\<bar>lat2 - lat1\<bar> * pi / 180))"
    by (rule calculateDistance_meridian [OF lt])
  also have "\<dots> = Math_round (6371000 * (9 / 2000 * pi / 180))" by (simp only: d)
  also have "\<dots> = 500" using pi_bounds by (intro Math_round_eq) simp_all
  finally show ?thesis .
qed

lemma dist_501:
  "\<bar>lat2 - lat1\<bar> = 901 / 200000 \<Longrightarrow> calculateDistance lat1 lon lat2 lon = 501"
proof -
  assume d: "\<bar>lat2 - lat1\<bar> = 901 / 200000"
  then have lt: "\<bar>lat2 - lat1\<bar> < 180" by simp
  have "calculateDistance lat1 lon lat2 lon = Math_round (6371000 * (\<bar>lat2 - lat1\<bar> * pi / 180))"
    by (rule calculateDistance_meridian [OF lt])
  also have "\<dots> = Math_round (6371000 * (901 / 200000 * pi / 180))" by (simp only: d)
  also have "\<dots> = 501" using pi_bounds by (intro Math_round_eq) simp_all
  finally show ?thesis .
qed


lemmas sample_data =
  depot_def cbd_def kencom_def ngara_def westlands_def equator_def
  alice_def matatu_def reader_def store0_def env0_def fare_def

section \<open>The destinations after the origin\<close>








section \<open>The nearest stop\<close>

lemma nearest_scan_from_Some: "\<exists>r. nearest_scan lat lon ss (Some a) = Some r"
  by (induction ss arbitrary: a) (simp_all add: Let_def split: option.split)

lemma nearest_scan_None:
  "(nearest_scan lat lon ss None = None) = (\<forall>s\<in>set ss. coords s = None)"
proof (induction ss)
  case Nil
  show ?case by simp
next
  case (Cons x xs)
  show ?case
  proof (cases "coords x")
    case None
    with Cons show ?thesis by simp
  next
    case (Some p)
    obtain la lo where p: "p = (la, lo)" by (cases p)
    from nearest_scan_from_Some [of lat lon xs "(x, calculateDistance lat lon la lo)"]
    show ?thesis using Some p by (auto simp: Let_def)
  qed
qed


lemma findNearestStop_None:
  "(findNearestStop lat lon ss = None) = (\<forall>s\<in>set ss. coords s = None)"
  by (cases ss) (simp_all add: findNearestStop_def nearest_scan_None del: nearest_scan.simps)



lemma Math_round_ge: "real_of_int n - 1 / 2 \<le> x \<Longrightarrow> n \<le> Math_round x"
  unfolding Math_round_def by linarith




text \<open>
  C7 does not hold of the code: the stop on the equator carries coordinates (latitude 0,
  longitude 36.8172) and is 500 m from the fix, yet the truthiness test of the loop
  skips it. Alone in the list it gives none, and next to Westlands, which is farther
  away, Westlands is returned.
\<close>

theorem findNearestStop_skips_zero_coordinate:
  "latitude equator = Some 0 \<and> longitude equator = Some 36.8172 \<and>
   findNearestStop 0.0045 36.8172 [equator] = None \<and>
   calculateDistance 0.0045 36.8172 0 36.8172 = 500 \<and>
   500 < calculateDistance 0.0045 36.8172 (- 1.2810) 36.8172 \<and>
   map_option fst (findNearestStop 0.0045 36.8172 [westlands, equator]) = Some westlands"
proof -
  have far: "500 < calculateDistance 0.0045 36.8172 (- 1.2810) 36.8172"
  proof -
    have "calculateDistance 0.0045 36.8172 (- 1.2810) 36.8172 =
            Math_round (6371000 * (\<bar>- 1.2810 - 0.0045\<bar> * pi / 180))"
      by (rule calculateDistance_meridian) simp
    moreover have "501 \<le> Math_round (6371000 * (\<bar>- 1.2810 - 0.0045\<bar> * pi / 180))"
      using pi_bounds by (intro Math_round_ge) simp
    ultimately show ?thesis by simp
  qed
  have "findNearestStop 0.0045 36.8172 [equator] = None"
    by (simp add: findNearestStop_def coords_def sample_data)
  moreover have "map_option fst (findNearestStop 0.0045 36.8172 [westlands, equator]) = Some westlands"
    by (simp add: findNearestStop_def coords_def Let_def equator_def westlands_def)
  moreover have "calculateDistance 0.0045 36.8172 0 36.8172 = 500"
    by (simp add: dist_500)
  ultimately show ?thesis using far by (simp add: sample_data)
qed

section \<open>The payment handler\<close>

lemma processPayment_at_gate:
  "passes_checks e req s u d m \<Longrightarrow>
   processPayment e req s =
     (case fraud_check e req s of
        Mismatch glat glon distance \<Rightarrow>
          (sendError ''Origin location mismatch detected. Please verify your boarding point.''
             ORIGIN_MISMATCH 400,
           s\<lparr>fraud_alerts := fraud_alerts s @ [suspicious_origin_alert req glat glon distance]\<rparr>)
      | GoOn nearest \<Rightarrow> commit e req u d m nearest s)"
  by (simp add: passes_checks_def processPayment_def)

lemma processPayment_before_gate:
  "\<not> (\<exists>u d m. passes_checks e req s u d m) \<Longrightarrow>
   snd (processPayment e req s) = s \<and>
   \<not> paid (fst (processPayment e req s)) \<and>
   (\<forall>msg code. fst (processPayment e req s) \<noteq> sendError msg ORIGIN_MISMATCH code)"
  by (auto simp: passes_checks_def processPayment_def paid_def split: option.splits)

lemma commit_not_mismatch:
  "fst (commit e req u d m nearest s) \<noteq> sendError msg ORIGIN_MISMATCH code"
  by (simp add: commit_def Let_def)

lemma commit_alerts: "fraud_alerts (snd (commit e req u d m nearest s)) = fraud_alerts s"
  by (simp add: commit_def Let_def update_balance_def)

lemma commit_transactions:
  "transactions (snd (commit e req u d m nearest s)) =
     (if txnError e then transactions s else transactions s @ [new_transaction e req u d m nearest])"
  by (simp add: commit_def Let_def update_balance_def)

lemma commit_users:
  "users (snd (commit e req u d m nearest s)) =
     (if txnError e \<or> balanceError e then users s
      else (users s)(user_id req :=
             map_option (\<lambda>x. x\<lparr>balance := balance u - amount req\<rparr>) (users s (user_id req))))"
  by (simp add: commit_def Let_def update_balance_def new_transaction_def)

lemma commit_response:
  "fst (commit e req u d m nearest s) =
     (if txnError e then sendError ''Payment failed'' SERVER_ERROR 500
      else sendSuccess
        (Receipt \<lparr>rc_transaction_id = uuidv4 e, rc_status = ''success'', rc_amount = amount req,
                  merchant_name = business_name m, merchant_plate = matatu_plate m,
                  rc_origin = origin_stop req, rc_destination = destination_stop req,
                  balance_before = balance u, balance_after = balance u - amount req,
                  timestamp = db_now e, reference = idempotency_key req\<rparr>)
        ''Payment successful'' 201)"
  by (simp add: commit_def Let_def new_transaction_def)

lemma commit_paid: "paid (fst (commit e req u d m nearest s)) = (\<not> txnError e)"
  by (simp add: commit_response paid_def)

text \<open>What a run that answers with a receipt did.\<close>

lemma processPayment_paid:
  assumes "paid (fst (processPayment e req s))"
  shows "\<exists>u d m nearest. passes_checks e req s u d m \<and> fraud_check e req s = GoOn nearest \<and>
           \<not> txnError e \<and> processPayment e req s = commit e req u d m nearest s"
proof -
  from assms processPayment_before_gate [of e req s]
  obtain u d m where pc: "passes_checks e req s u d m" by blast
  show ?thesis
  proof (cases "fraud_check e req s")
    case (Mismatch glat glon distance)
    with assms pc show ?thesis by (simp add: processPayment_at_gate paid_def)
  next
    case (GoOn nearest)
    with pc have eq: "processPayment e req s = commit e req u d m nearest s"
      by (simp add: processPayment_at_gate)
    with assms have "\<not> txnError e" by (simp add: commit_paid)
    with pc GoOn eq show ?thesis by blast
  qed
qed

lemma new_transaction_fields:
  "transaction_id (new_transaction e req u d m nearest) = uuidv4 e"
  "txn_status (new_transaction e req u d m nearest) = ''success''"
  "txn_amount (new_transaction e req u d m nearest) = amount req"
  "txn_user_id (new_transaction e req u d m nearest) = user_id req"
  "reference_code (new_transaction e req u d m nearest) = idempotency_key req"
  "auto_detected_origin (new_transaction e req u d m nearest) = True"
  "nearest_stop_distance_meters (new_transaction e req u d m nearest) = nearest"
  "user_balance_before (new_transaction e req u d m nearest) = balance u"
  "user_balance_after (new_transaction e req u d m nearest) = balance u - amount req"
  "merchant_commission (new_transaction e req u d m nearest) = amount req * commission_rate m"
  "net_amount (new_transaction e req u d m nearest) = amount req - amount req * commission_rate m"
  "txn_origin_stop (new_transaction e req u d m nearest) = or_null (origin_stop req)"
  by (simp_all add: new_transaction_def Let_def)

lemma pc0: "passes_checks env0 (fare org glat) store0 alice reader matatu"
  by (simp add: passes_checks_def existingTxn_def single_def sample_data)

lemma fc_manual: "fraud_check env0 (fare (JStr ''cbd'') None) store0 = GoOn None"
  by (simp add: fraud_check_def sample_data)

text \<open>
  C9. The row \<^verbatim>\<open>processPayment\<close> inserts has \<^verbatim>\<open>auto_detected_origin\<close> true whatever
  the request, the store and the environment: the variable is initialised to true and
  never assigned again. In particular every payment answered with a receipt has stored
  one row, with the origin the request named and the flag true.
\<close>

theorem auto_detected_origin_always_true:
  "auto_detected_origin (new_transaction e req u d m nearest) \<and>
   (\<forall>rc msg code. fst (processPayment e req s) = sendSuccess (Receipt rc) msg code \<longrightarrow>
      (\<exists>t. transactions (snd (processPayment e req s)) = transactions s @ [t] \<and>
           transaction_id t = rc_transaction_id rc \<and> txn_status t = ''success'' \<and>
           txn_origin_stop t = or_null (origin_stop req) \<and>
           auto_detected_origin t))"
proof (intro conjI allI impI)
  show "auto_detected_origin (new_transaction e req u d m nearest)"
    by (simp add: new_transaction_fields)
next
  fix rc msg code
  assume r: "fst (processPayment e req s) = sendSuccess (Receipt rc) msg code"
  then have "paid (fst (processPayment e req s))" by (simp add: paid_def)
  from processPayment_paid [OF this] obtain u' d' m' n' where
    h: "\<not> txnError e" "processPayment e req s = commit e req u' d' m' n' s" by blast
  let ?t = "new_transaction e req u' d' m' n'"
  have "transactions (snd (processPayment e req s)) = transactions s @ [?t]"
    using h by (simp add: commit_transactions)
  moreover have "transaction_id ?t = rc_transaction_id rc"
    using r h by (auto simp: commit_response new_transaction_fields)
  ultimately show "\<exists>t. transactions (snd (processPayment e req s)) = transactions s @ [t] \<and>
           transaction_id t = rc_transaction_id rc \<and> txn_status t = ''success'' \<and>
           txn_origin_stop t = or_null (origin_stop req) \<and>
           auto_detected_origin t"
    by (intro exI [of _ ?t]) (simp add: new_transaction_fields)
qed

text \<open>
  A payment with no GPS fix at all, the origin picked by hand: the row still says the
  origin was detected automatically.
\<close>

theorem auto_detected_origin_always_true_witness:
  "gps_latitude (fare (JStr ''cbd'') None) = None \<and>
   fst (processPayment env0 (fare (JStr ''cbd'') None) store0) =
     sendSuccess
       (Receipt \<lparr>rc_transaction_id = ''txn-1'', rc_status = ''success'', rc_amount = 50,
                 merchant_name = ''Route 111 Sacco'', merchant_plate = Some ''KBX 111A'',
                 rc_origin = JStr ''cbd'', rc_destination = JStr ''kawangware'',
                 balance_before = 1000, balance_after = 950,
                 timestamp = 1001, reference = ''R1''\<rparr>)
       ''Payment successful'' 201 \<and>
   (\<exists>t. transactions (snd (processPayment env0 (fare (JStr ''cbd'') None) store0)) =
           transactions store0 @ [t] \<and>
        transaction_id t = ''txn-1'' \<and> txn_status t = ''success'' \<and>
        txn_origin_stop t = JStr ''cbd'' \<and> auto_detected_origin t)"
proof -
  have r: "fst (processPayment env0 (fare (JStr ''cbd'') None) store0) =
     sendSuccess
       (Receipt \<lparr>rc_transaction_id = ''txn-1'', rc_status = ''success'', rc_amount = 50,
                 merchant_name = ''Route 111 Sacco'', merchant_plate = Some ''KBX 111A'',
                 rc_origin = JStr ''cbd'', rc_destination = JStr ''kawangware'',
                 balance_before = 1000, balance_after = 950,
                 timestamp = 1001, reference = ''R1''\<rparr>)
       ''Payment successful'' 201"
    by (simp add: processPayment_at_gate [OF pc0] fc_manual commit_response) (simp add: sample_data)
  from auto_detected_origin_always_true
    [where e = env0 and req = "fare (JStr ''cbd'') None" and s = store0,
      THEN conjunct2, rule_format, OF r]
  have "\<exists>t. transactions (snd (processPayment env0 (fare (JStr ''cbd'') None) store0)) =
           transactions store0 @ [t] \<and>
        transaction_id t = ''txn-1'' \<and> txn_status t = ''success'' \<and>
        txn_origin_stop t = or_null (origin_stop (fare (JStr ''cbd'') None)) \<and> auto_detected_origin t"
    by simp
  moreover have "or_null (origin_stop (fare (JStr ''cbd'') None)) = JStr ''cbd''"
    by (simp add: or_null_def sample_data)
  moreover have "gps_latitude (fare (JStr ''cbd'') None) = None" by (simp add: sample_data)
  ultimately show ?thesis using r by simp
qed

section \<open>The GPS fraud check\<close>



lemma fraud_check_skipped:
  assumes "route_id req = JNull \<or> route_id req = JNum 0 \<or>
           origin_stop req = JNull \<or> origin_stop req = JNum 0 \<or>
           gps_latitude req = None \<or> gps_latitude req = Some 0 \<or>
           gps_longitude req = None \<or> gps_longitude req = Some 0 \<or>
           (\<exists>r st. routes s (route_id req) = Some r \<and>
              find (\<lambda>st. stop_id st = origin_stop req)
                (case route_stops r of None \<Rightarrow> [] | Some xs \<Rightarrow> xs) = Some st \<and>
              (latitude st = None \<or> latitude st = Some 0 \<or>
               longitude st = None \<or> longitude st = Some 0))"
  shows "fraud_check e req s = GoOn None"
  using assms
  by (auto simp: fraud_check_def Let_def coords_def split: option.splits)

lemma env0_fields:
  "txnError env0 = False" "balanceError env0 = False" "GPS_MAX_DISTANCE_METERS env0 = None"
  "uuidv4 env0 = ''txn-1''" "db_now env0 = 1001" "date_now env0 = 1000"
  by (simp_all add: env0_def)

lemma store0_fields:
  "transactions store0 = []" "fraud_alerts store0 = []" "notifications store0 = []"
  "users store0 = [''u1'' \<mapsto> alice]"
  by (simp_all add: store0_def)

lemma route0:
  "routes store0 (JStr ''r111'') =
     Some \<lparr>route_stops = Some [depot, cbd, kencom, ngara, westlands, equator]\<rparr>"
  by (simp add: store0_def)


lemma stop_ids:
  "stop_id depot = JStr ''depot''" "stop_id cbd = JStr ''cbd''" "stop_id kencom = JStr ''kencom''"
  "stop_id ngara = JStr ''ngara''" "stop_id westlands = JStr ''westlands''"
  "stop_id equator = JStr ''equator''"
  by (simp_all add: sample_data)

lemma fare_fields:
  "route_id (fare org glat) = JStr ''r111''" "origin_stop (fare org glat) = org"
  "gps_latitude (fare org glat) = glat"
  "gps_longitude (fare org (Some x)) = Some 36.8172"
  "user_id (fare org glat) = ''u1''" "amount (fare org glat) = 50"
  "idempotency_key (fare org glat) = ''R1''"
  by (simp_all add: fare_def)

lemma maxDistance0: "maxDistance env0 = 500"
  by (simp add: maxDistance_def env0_fields)




text \<open>
  C10. When the request's \<^verbatim>\<open>route_id\<close> or \<^verbatim>\<open>origin_stop\<close> is absent or 0, or its
  \<^verbatim>\<open>gps_latitude\<close> or \<^verbatim>\<open>gps_longitude\<close> is absent or 0, or the claimed origin stop
  (the first stop of the route with the origin's id) has a latitude or longitude that
  is absent or 0, the fraud check is skipped: it yields no distance, the handler does not
  answer \<^verbatim>\<open>ORIGIN_MISMATCH\<close> and appends no fraud alert, a request that passes the
  checks before it goes straight to the commit step with
  \<^verbatim>\<open>nearest_stop_distance_meters\<close> null, and a row the run inserts carries a null
  distance.
\<close>

theorem gps_check_skipped_on_falsy_values:
  assumes "route_id req = JNull \<or> route_id req = JNum 0 \<or>
           origin_stop req = JNull \<or> origin_stop req = JNum 0 \<or>
           gps_latitude req = None \<or> gps_latitude req = Some 0 \<or>
           gps_longitude req = None \<or> gps_longitude req = Some 0 \<or>
           (\<exists>r st. routes s (route_id req) = Some r \<and>
              find (\<lambda>st. stop_id st = origin_stop req)
                (case route_stops r of None \<Rightarrow> [] | Some xs \<Rightarrow> xs) = Some st \<and>
              (latitude st = None \<or> latitude st = Some 0 \<or>
               longitude st = None \<or> longitude st = Some 0))"
  shows "fraud_check e req s = GoOn None \<and>
         fraud_alerts (snd (processPayment e req s)) = fraud_alerts s \<and>
         (\<forall>msg code. fst (processPayment e req s) \<noteq> sendError msg ORIGIN_MISMATCH code) \<and>
         (\<forall>u d m. passes_checks e req s u d m \<longrightarrow>
            processPayment e req s = commit e req u d m None s) \<and>
         (\<forall>t. transactions (snd (processPayment e req s)) = transactions s @ [t] \<longrightarrow>
            nearest_stop_distance_meters t = None)"
proof -
  have fc: "fraud_check e req s = GoOn None" using assms by (rule fraud_check_skipped)
  have at: "processPayment e req s = commit e req u d m None s"
    if "passes_checks e req s u d m" for u d m
    using that fc by (simp add: processPayment_at_gate)
  show ?thesis
  proof (cases "\<exists>u d m. passes_checks e req s u d m")
    case False
    from processPayment_before_gate [OF False] fc at show ?thesis by auto
  next
    case True
    then obtain u d m where pc: "passes_checks e req s u d m" by blast
    have eq: "processPayment e req s = commit e req u d m None s" using pc by (rule at)
    have "fraud_alerts (snd (processPayment e req s)) = fraud_alerts s"
      by (simp add: eq commit_alerts)
    moreover have "\<forall>msg code. fst (processPayment e req s) \<noteq> sendError msg ORIGIN_MISMATCH code"
      by (simp add: eq commit_not_mismatch)
    moreover have "\<forall>t. transactions (snd (processPayment e req s)) = transactions s @ [t] \<longrightarrow>
            nearest_stop_distance_meters t = None"
      by (auto simp: eq commit_transactions new_transaction_fields split: if_splits)
    ultimately show ?thesis using fc at by blast
  qed
qed

text \<open>
  A fix on the equator (latitude 0) with Westlands claimed, and a fix in Nairobi with
  the stop on the equator claimed: both payments go through with no alert and a null
  distance.
\<close>

theorem gps_check_skipped_on_falsy_values_witness:
  "gps_latitude (fare (JStr ''westlands'') (Some 0)) = Some 0 \<and>
   paid (fst (processPayment env0 (fare (JStr ''westlands'') (Some 0)) store0)) \<and>
   fraud_alerts (snd (processPayment env0 (fare (JStr ''westlands'') (Some 0)) store0)) = [] \<and>
   map nearest_stop_distance_meters
     (transactions (snd (processPayment env0 (fare (JStr ''westlands'') (Some 0)) store0))) = [None] \<and>
   latitude equator = Some 0 \<and>
   paid (fst (processPayment env0 (fare (JStr ''equator'') (Some (- 1.2864))) store0)) \<and>
   fraud_alerts (snd (processPayment env0 (fare (JStr ''equator'') (Some (- 1.2864))) store0)) = [] \<and>
   map nearest_stop_distance_meters
     (transactions (snd (processPayment env0 (fare (JStr ''equator'') (Some (- 1.2864))) store0))) = [None]"
proof -
  let ?r1 = "fare (JStr ''westlands'') (Some 0)"
  let ?r2 = "fare (JStr ''equator'') (Some (- 1.2864))"
  have h1: "route_id ?r1 = JNull \<or> route_id ?r1 = JNum 0 \<or>
           origin_stop ?r1 = JNull \<or> origin_stop ?r1 = JNum 0 \<or>
           gps_latitude ?r1 = None \<or> gps_latitude ?r1 = Some 0 \<or>
           gps_longitude ?r1 = None \<or> gps_longitude ?r1 = Some 0 \<or>
           (\<exists>r st. routes store0 (route_id ?r1) = Some r \<and>
              find (\<lambda>st. stop_id st = origin_stop ?r1)
                (case route_stops r of None \<Rightarrow> [] | Some xs \<Rightarrow> xs) = Some st \<and>
              (latitude st = None \<or> latitude st = Some 0 \<or>
               longitude st = None \<or> longitude st = Some 0))"
    by (simp add: fare_def)
  have "find (\<lambda>st. stop_id st = JStr ''equator'')
          [depot, cbd, kencom, ngara, westlands, equator] = Some equator"
    by (simp add: sample_data)
  then have h2: "route_id ?r2 = JNull \<or> route_id ?r2 = JNum 0 \<or>
           origin_stop ?r2 = JNull \<or> origin_stop ?r2 = JNum 0 \<or>
           gps_latitude ?r2 = None \<or> gps_latitude ?r2 = Some 0 \<or>
           gps_longitude ?r2 = None \<or> gps_longitude ?r2 = Some 0 \<or>
           (\<exists>r st. routes store0 (route_id ?r2) = Some r \<and>
              find (\<lambda>st. stop_id st = origin_stop ?r2)
                (case route_stops r of None \<Rightarrow> [] | Some xs \<Rightarrow> xs) = Some st \<and>
              (latitude st = None \<or> latitude st = Some 0 \<or>
               longitude st = None \<or> longitude st = Some 0))"
    by (simp add: fare_def store0_def equator_def)
  note t1 = gps_check_skipped_on_falsy_values [OF h1, of env0]
  note t2 = gps_check_skipped_on_falsy_values [OF h2, of env0]
  have e1: "processPayment env0 ?r1 store0 = commit env0 ?r1 alice reader matatu None store0"
    using t1 pc0 by blast
  have e2: "processPayment env0 ?r2 store0 = commit env0 ?r2 alice reader matatu None store0"
    using t2 pc0 by blast
  have "paid (fst (processPayment env0 ?r1 store0))" "paid (fst (processPayment env0 ?r2 store0))"
    unfolding e1 e2 by (simp_all add: commit_paid env0_fields)
  moreover have "fraud_alerts (snd (processPayment env0 ?r1 store0)) = []"
    "fraud_alerts (snd (processPayment env0 ?r2 store0)) = []"
    using t1 t2 by (simp_all add: store0_fields)
  moreover have "map nearest_stop_distance_meters (transactions (snd (processPayment env0 ?r1 store0))) = [None]"
    "map nearest_stop_distance_meters (transactions (snd (processPayment env0 ?r2 store0))) = [None]"
    unfolding e1 e2 by (simp_all add: commit_transactions new_transaction_fields env0_fields store0_fields)
  moreover have "gps_latitude ?r1 = Some 0" "latitude equator = Some 0"
    by (simp_all add: fare_def equator_def)
  ultimately show ?thesis by (intro conjI)
qed



text \<open>
  C4 does not hold of the code: the claimed origin is the stop on the equator, which has
  coordinates (latitude 0), the fix is supplied and is 501 m from it, one meter beyond
  the maximum, and the payment is made and no alert recorded.
\<close>

theorem fraud_threshold_ignores_zero_coordinate:
  "latitude equator = Some 0 \<and> longitude equator = Some 36.8172 \<and>
   gps_latitude (fare (JStr ''equator'') (Some 0.004505)) = Some 0.004505 \<and>
   gps_longitude (fare (JStr ''equator'') (Some 0.004505)) = Some 36.8172 \<and>
   find (\<lambda>st. stop_id st = origin_stop (fare (JStr ''equator'') (Some 0.004505)))
     [depot, cbd, kencom, ngara, westlands, equator] = Some equator \<and>
   calculateDistance 0.004505 36.8172 0 36.8172 = maxDistance env0 + 1 \<and>
   paid (fst (processPayment env0 (fare (JStr ''equator'') (Some 0.004505)) store0)) \<and>
   fraud_alerts (snd (processPayment env0 (fare (JStr ''equator'') (Some 0.004505)) store0)) = []"
proof -
  let ?r = "fare (JStr ''equator'') (Some 0.004505)"
  have f: "find (\<lambda>st. stop_id st = origin_stop ?r)
     [depot, cbd, kencom, ngara, westlands, equator] = Some equator"
    by (simp add: fare_fields stop_ids)
  have fc: "fraud_check env0 ?r store0 = GoOn None"
    by (rule fraud_check_skipped) (simp add: fare_fields route0 stop_ids equator_def)
  have eq: "processPayment env0 ?r store0 = commit env0 ?r alice reader matatu None store0"
    unfolding processPayment_at_gate [OF pc0] fc by simp
  have "paid (fst (processPayment env0 ?r store0))"
    unfolding eq by (simp add: commit_paid env0_fields)
  moreover have "fraud_alerts (snd (processPayment env0 ?r store0)) = []"
    unfolding eq by (simp add: commit_alerts store0_fields)
  moreover have "calculateDistance 0.004505 36.8172 0 36.8172 = maxDistance env0 + 1"
    unfolding maxDistance0 by (simp add: dist_501)
  moreover have "latitude equator = Some 0" "longitude equator = Some 36.8172"
    by (simp_all add: equator_def)
  moreover have "gps_latitude ?r = Some 0.004505" "gps_longitude ?r = Some 36.8172"
    by (simp_all only: fare_fields)
  ultimately show ?thesis using f by (intro conjI)
qed

section \<open>Replaying a reference code\<close>









section \<open>The commit step\<close>

lemma route_process_before:
  "\<not> (\<exists>amt u. route_passes e b s amt u) \<Longrightarrow> snd (route_process e b s) = s"
  by (auto simp: route_passes_def route_process_def split: option.splits)

lemma route_process_commit:
  assumes "route_passes e b s amt u"
  shows "transactions (snd (route_process e b s)) =
           (if txError e then transactions s else transactions s @ [route_transaction e b amt u s])"
    and "users (snd (route_process e b s)) =
           (if txError e \<or> r_balanceError e then users s
            else (users s)(b_user_id b :=
                   map_option (\<lambda>x. x\<lparr>balance := balance u - amt\<rparr>) (users s (b_user_id b))))"
    and "txError e \<Longrightarrow> route_process e b s = (json_error 500 ''Failed to create transaction'', s)"
    and "\<not> txError e \<Longrightarrow> fst (route_process e b s) =
           json_data 200 \<lparr>d_transaction_id = randomUUID e,
             d_reference_code = generateReferenceCode e, d_amount = amt,
             new_balance = balance u - amt, d_timestamp = created_now e\<rparr>"
  using assms
  by (simp_all add: route_passes_def route_process_def Let_def update_balance_def
      route_transaction_def)

lemma route_transaction_fields:
  "txn_status (route_transaction e b amt u s) = ''success''"
  "user_balance_before (route_transaction e b amt u s) = balance u"
  "user_balance_after (route_transaction e b amt u s) = balance u - amt"
  "txn_amount (route_transaction e b amt u s) = amt"
  "txn_user_id (route_transaction e b amt u s) = b_user_id b"
  "merchant_commission (route_transaction e b amt u s) = amt * commissionRate s (b_merchant_id b)"
  "net_amount (route_transaction e b amt u s) = amt - amt * commissionRate s (b_merchant_id b)"
  by (simp_all add: route_transaction_def Let_def)

lemma controller_insert_failed:
  assumes "passes_checks e req s u d m" "fraud_check e req s = GoOn nearest" "txnError e"
  shows "processPayment e req s = (sendError ''Payment failed'' SERVER_ERROR 500, s)"
  using processPayment_at_gate [OF assms(1)] assms(2,3) by (simp add: commit_def Let_def)

lemma controller_row:
  assumes "passes_checks e req s u d m" "fraud_check e req s = GoOn nearest" "\<not> txnError e"
  shows "paid (fst (processPayment e req s))"
    and "\<exists>t. transactions (snd (processPayment e req s)) = transactions s @ [t] \<and>
              txn_status t = ''success'' \<and> txn_amount t = amount req \<and>
              user_balance_before t = balance u \<and>
              user_balance_after t = balance u - amount req"
proof -
  have eq: "processPayment e req s = commit e req u d m nearest s"
    using processPayment_at_gate [OF assms(1)] assms(2) by simp
  show "paid (fst (processPayment e req s))" using assms(3) by (simp add: eq commit_paid)
  show "\<exists>t. transactions (snd (processPayment e req s)) = transactions s @ [t] \<and>
              txn_status t = ''success'' \<and> txn_amount t = amount req \<and>
              user_balance_before t = balance u \<and>
              user_balance_after t = balance u - amount req"
    using assms(3)
    by (intro exI [of _ "new_transaction e req u d m nearest"])
      (simp add: eq commit_transactions new_transaction_fields)
qed

lemma controller_balance:
  assumes "passes_checks e req s u d m" "fraud_check e req s = GoOn nearest"
    and "\<not> txnError e \<and> \<not> balanceError e"
  shows "users (snd (processPayment e req s)) (user_id req) =
           Some (u\<lparr>balance := balance u - amount req\<rparr>)"
proof -
  have eq: "processPayment e req s = commit e req u d m nearest s"
    using processPayment_at_gate [OF assms(1)] assms(2) by simp
  have us: "users s (user_id req) = Some u" using assms(1) by (simp add: passes_checks_def)
  show ?thesis using assms(3) by (simp add: eq commit_users us)
qed

lemma controller_no_debit_without_row:
  assumes ch: "users (snd (processPayment e req s)) \<noteq> users s"
  shows "\<exists>t. transactions (snd (processPayment e req s)) = transactions s @ [t] \<and>
           txn_status t = ''success'' \<and> txn_user_id t = user_id req"
proof -
  have "\<exists>u0 d0 m0. passes_checks e req s u0 d0 m0"
  proof (rule ccontr)
    assume "\<not> (\<exists>u0 d0 m0. passes_checks e req s u0 d0 m0)"
    from processPayment_before_gate [OF this] ch show False by simp
  qed
  then obtain u0 d0 m0 where pc: "passes_checks e req s u0 d0 m0" by blast
  show ?thesis
  proof (cases "fraud_check e req s")
    case (Mismatch glat glon distance)
    with ch show ?thesis by (simp add: processPayment_at_gate [OF pc])
  next
    case (GoOn n)
    then have eq: "processPayment e req s = commit e req u0 d0 m0 n s"
      by (simp add: processPayment_at_gate [OF pc])
    with ch have "\<not> txnError e" by (auto simp: commit_users)
    then show ?thesis
      by (intro exI [of _ "new_transaction e req u0 d0 m0 n"])
        (simp add: eq commit_transactions new_transaction_fields)
  qed
qed

lemma route_row:
  assumes "route_passes e b s amt u" "\<not> txError e"
  shows "\<exists>t. transactions (snd (route_process e b s)) = transactions s @ [t] \<and>
              txn_status t = ''success'' \<and> txn_amount t = amt \<and>
              user_balance_before t = balance u \<and>
              user_balance_after t = balance u - amt"
  using assms(2)
  by (intro exI [of _ "route_transaction e b amt u s"])
    (simp add: route_process_commit(1) [OF assms(1)] route_transaction_fields)

lemma route_balance:
  assumes "route_passes e b s amt u" "\<not> txError e \<and> \<not> r_balanceError e"
  shows "users (snd (route_process e b s)) (b_user_id b) =
           Some (u\<lparr>balance := balance u - amt\<rparr>)"
proof -
  have us: "users s (b_user_id b) = Some u" using assms(1) by (simp add: route_passes_def)
  show ?thesis using assms(2) by (simp add: route_process_commit(2) [OF assms(1)] us)
qed

lemma route_no_debit_without_row:
  assumes ch: "users (snd (route_process e b s)) \<noteq> users s"
  shows "\<exists>t. transactions (snd (route_process e b s)) = transactions s @ [t] \<and>
           txn_status t = ''success'' \<and> txn_user_id t = b_user_id b"
proof -
  have "\<exists>a0 u0. route_passes e b s a0 u0"
  proof (rule ccontr)
    assume "\<not> (\<exists>a0 u0. route_passes e b s a0 u0)"
    from route_process_before [OF this] ch show False by simp
  qed
  then obtain a0 u0 where pc: "route_passes e b s a0 u0" by blast
  from ch have "\<not> txError e" by (auto simp: route_process_commit(2) [OF pc])
  then show ?thesis
    by (intro exI [of _ "route_transaction e b a0 u0 s"])
      (simp add: route_process_commit(1) [OF pc] route_transaction_fields)
qed

lemma rp0: "route_passes (renv0\<lparr>r_balanceError := x\<rparr>) body0 store0 50 alice"
  by (simp add: route_passes_def renv0_def body0_def store0_def alice_def)

lemma pc0': "passes_checks (env0\<lparr>txnError := x, balanceError := y\<rparr>) (fare org glat) store0 alice reader matatu"
  by (simp add: passes_checks_def existingTxn_def single_def sample_data)

lemma fc_manual': "fraud_check e (fare (JStr ''cbd'') None) store0 = GoOn None"
  by (simp add: fraud_check_def sample_data)

text \<open>
  C1, as amended. In both payment paths the commit step is two separate writes, in
  order: the insert of the transaction row, then the update of the balance. For a
  payment that reaches the step: when the insert fails the answer is the 500 and
  nothing is persisted; when it succeeds the row is stored with status
  \<^verbatim>\<open>success\<close> and the balance before and after the debit; and when the update
  succeeds as well the user's balance is the recorded balance after. For every run of
  either handler, a changed \<^verbatim>\<open>users\<close> table implies that the row was inserted:
  the balance is never decremented without the row.
\<close>

theorem commit_is_two_writes_in_order:
  "(passes_checks e req s u d m \<and> fraud_check e req s = GoOn nearest \<longrightarrow>
      (txnError e \<longrightarrow>
         processPayment e req s = (sendError ''Payment failed'' SERVER_ERROR 500, s)) \<and>
      (\<not> txnError e \<longrightarrow>
         paid (fst (processPayment e req s)) \<and>
         (\<exists>t. transactions (snd (processPayment e req s)) = transactions s @ [t] \<and>
              txn_status t = ''success'' \<and> txn_amount t = amount req \<and>
              user_balance_before t = balance u \<and>
              user_balance_after t = balance u - amount req)) \<and>
      (\<not> txnError e \<and> \<not> balanceError e \<longrightarrow>
         users (snd (processPayment e req s)) (user_id req) =
           Some (u\<lparr>balance := balance u - amount req\<rparr>))) \<and>
   (users (snd (processPayment e req s)) \<noteq> users s \<longrightarrow>
      (\<exists>t. transactions (snd (processPayment e req s)) = transactions s @ [t] \<and>
           txn_status t = ''success'' \<and> txn_user_id t = user_id req)) \<and>
   (route_passes e' b s amt u' \<longrightarrow>
      (txError e' \<longrightarrow>
         route_process e' b s = (json_error 500 ''Failed to create transaction'', s)) \<and>
      (\<not> txError e' \<longrightarrow>
         (\<exists>t. transactions (snd (route_process e' b s)) = transactions s @ [t] \<and>
              txn_status t = ''success'' \<and> txn_amount t = amt \<and>
              user_balance_before t = balance u' \<and>
              user_balance_after t = balance u' - amt)) \<and>
      (\<not> txError e' \<and> \<not> r_balanceError e' \<longrightarrow>
         users (snd (route_process e' b s)) (b_user_id b) =
           Some (u'\<lparr>balance := balance u' - amt\<rparr>))) \<and>
   (users (snd (route_process e' b s)) \<noteq> users s \<longrightarrow>
      (\<exists>t. transactions (snd (route_process e' b s)) = transactions s @ [t] \<and>
           txn_status t = ''success'' \<and> txn_user_id t = b_user_id b))"
proof (intro conjI impI)
  assume "passes_checks e req s u d m \<and> fraud_check e req s = GoOn nearest" "txnError e"
  then show "processPayment e req s = (sendError ''Payment failed'' SERVER_ERROR 500, s)"
    by (auto intro: controller_insert_failed)
next
  assume "passes_checks e req s u d m \<and> fraud_check e req s = GoOn nearest" "\<not> txnError e"
  then show "paid (fst (processPayment e req s))"
    by (auto intro: controller_row(1))
next
  assume "passes_checks e req s u d m \<and> fraud_check e req s = GoOn nearest" "\<not> txnError e"
  then show "\<exists>t. transactions (snd (processPayment e req s)) = transactions s @ [t] \<and>
              txn_status t = ''success'' \<and> txn_amount t = amount req \<and>
              user_balance_before t = balance u \<and>
              user_balance_after t = balance u - amount req"
    by (auto intro: controller_row(2))
next
  assume "passes_checks e req s u d m \<and> fraud_check e req s = GoOn nearest"
    "\<not> txnError e \<and> \<not> balanceError e"
  then show "users (snd (processPayment e req s)) (user_id req) =
           Some (u\<lparr>balance := balance u - amount req\<rparr>)"
    by (auto intro: controller_balance)
next
  assume "users (snd (processPayment e req s)) \<noteq> users s"
  then show "\<exists>t. transactions (snd (processPayment e req s)) = transactions s @ [t] \<and>
           txn_status t = ''success'' \<and> txn_user_id t = user_id req"
    by (rule controller_no_debit_without_row)
next
  assume "route_passes e' b s amt u'" "txError e'"
  then show "route_process e' b s = (json_error 500 ''Failed to create transaction'', s)"
    by (rule route_process_commit(3))
next
  assume "route_passes e' b s amt u'" "\<not> txError e'"
  then show "\<exists>t. transactions (snd (route_process e' b s)) = transactions s @ [t] \<and>
              txn_status t = ''success'' \<and> txn_amount t = amt \<and>
              user_balance_before t = balance u' \<and>
              user_balance_after t = balance u' - amt"
    by (rule route_row)
next
  assume "route_passes e' b s amt u'" "\<not> txError e' \<and> \<not> r_balanceError e'"
  then show "users (snd (route_process e' b s)) (b_user_id b) =
           Some (u'\<lparr>balance := balance u' - amt\<rparr>)"
    by (rule route_balance)
next
  assume "users (snd (route_process e' b s)) \<noteq> users s"
  then show "\<exists>t. transactions (snd (route_process e' b s)) = transactions s @ [t] \<and>
           txn_status t = ''success'' \<and> txn_user_id t = b_user_id b"
    by (rule route_no_debit_without_row)
qed

text \<open>
  The fare through both paths with both writes succeeding, and through the controller
  with a failing insert.
\<close>

theorem commit_is_two_writes_in_order_witness:
  "passes_checks env0 (fare (JStr ''cbd'') None) store0 alice reader matatu \<and>
   fraud_check env0 (fare (JStr ''cbd'') None) store0 = GoOn None \<and>
   \<not> txnError env0 \<and> \<not> balanceError env0 \<and>
   paid (fst (processPayment env0 (fare (JStr ''cbd'') None) store0)) \<and>
   (\<exists>t. transactions (snd (processPayment env0 (fare (JStr ''cbd'') None) store0)) = [t] \<and>
        txn_status t = ''success'' \<and> txn_amount t = 50 \<and>
        user_balance_before t = 1000 \<and> user_balance_after t = 950) \<and>
   users (snd (processPayment env0 (fare (JStr ''cbd'') None) store0)) ''u1'' =
     Some (alice\<lparr>balance := 950\<rparr>) \<and>
   processPayment (env0\<lparr>txnError := True, balanceError := False\<rparr>) (fare (JStr ''cbd'') None) store0 =
     (sendError ''Payment failed'' SERVER_ERROR 500, store0) \<and>
   route_passes renv0 body0 store0 50 alice \<and> \<not> txError renv0 \<and> \<not> r_balanceError renv0 \<and>
   (\<exists>t. transactions (snd (route_process renv0 body0 store0)) = [t] \<and>
        txn_status t = ''success'' \<and> txn_amount t = 50 \<and>
        user_balance_before t = 1000 \<and> user_balance_after t = 950) \<and>
   users (snd (route_process renv0 body0 store0)) ''u1'' = Some (alice\<lparr>balance := 950\<rparr>)"
proof -
  let ?r = "fare (JStr ''cbd'') None"
  let ?f = "env0\<lparr>txnError := True, balanceError := False\<rparr>"
  have rp: "route_passes renv0 body0 store0 50 alice" using rp0 [of False] by (simp add: renv0_def)
  have fl: "txnError ?f" "\<not> txError renv0" "\<not> r_balanceError renv0"
    by (simp_all add: renv0_def)
  have ok: "\<not> txnError env0" "\<not> balanceError env0" by (simp_all add: env0_fields)
  note t = commit_is_two_writes_in_order
    [where e = env0 and req = ?r and s = store0 and u = alice and d = reader and m = matatu
       and nearest = None and e' = renv0 and b = body0 and amt = 50 and u' = alice]
  note tf = commit_is_two_writes_in_order
    [where e = ?f and req = ?r and s = store0 and u = alice and d = reader and m = matatu
       and nearest = None and e' = renv0 and b = body0 and amt = 50 and u' = alice]
  have pcf: "passes_checks ?f ?r store0 alice reader matatu"
    by (rule pc0' [where x = True and y = False])
  note c = t [THEN conjunct1, rule_format, OF conjI [OF pc0 fc_manual]]
  note cf = tf [THEN conjunct1, rule_format, OF conjI [OF pcf fc_manual']]
  note r = t [THEN conjunct2, THEN conjunct2, THEN conjunct1, rule_format, OF rp]
  from c [THEN conjunct2, THEN conjunct1, rule_format, OF ok(1)]
  have 1: "paid (fst (processPayment env0 ?r store0))"
    and 2: "\<exists>t. transactions (snd (processPayment env0 ?r store0)) = transactions store0 @ [t] \<and>
        txn_status t = ''success'' \<and> txn_amount t = amount ?r \<and>
        user_balance_before t = balance alice \<and> user_balance_after t = balance alice - amount ?r"
    by simp_all
  from c [THEN conjunct2, THEN conjunct2, rule_format, OF conjI [OF ok]]
  have 3: "users (snd (processPayment env0 ?r store0)) (user_id ?r) =
        Some (alice\<lparr>balance := balance alice - amount ?r\<rparr>)" .
  from cf [THEN conjunct1, rule_format, OF fl(1)]
  have 4: "processPayment ?f ?r store0 = (sendError ''Payment failed'' SERVER_ERROR 500, store0)" .
  from r [THEN conjunct2, THEN conjunct1, rule_format, OF fl(2)]
  have 5: "\<exists>t. transactions (snd (route_process renv0 body0 store0)) = transactions store0 @ [t] \<and>
        txn_status t = ''success'' \<and> txn_amount t = 50 \<and>
        user_balance_before t = balance alice \<and> user_balance_after t = balance alice - 50" .
  from r [THEN conjunct2, THEN conjunct2, rule_format, OF conjI [OF fl(2,3)]]
  have 6: "users (snd (route_process renv0 body0 store0)) (b_user_id body0) =
        Some (alice\<lparr>balance := balance alice - 50\<rparr>)" .
  have b: "balance alice = 1000" "amount ?r = 50" "user_id ?r = ''u1''" "b_user_id body0 = ''u1''"
    by (simp_all add: alice_def fare_fields body0_def)
  from 2 have w2: "\<exists>t. transactions (snd (processPayment env0 ?r store0)) = [t] \<and>
        txn_status t = ''success'' \<and> txn_amount t = 50 \<and>
        user_balance_before t = 1000 \<and> user_balance_after t = 950"
    by (simp add: b store0_fields)
  from 5 have w5: "\<exists>t. transactions (snd (route_process renv0 body0 store0)) = [t] \<and>
        txn_status t = ''success'' \<and> txn_amount t = 50 \<and>
        user_balance_before t = 1000 \<and> user_balance_after t = 950"
    by (simp add: b store0_fields)
  from 3 have w3: "users (snd (processPayment env0 ?r store0)) ''u1'' = Some (alice\<lparr>balance := 950\<rparr>)"
    by (simp add: b)
  from 6 have w6: "users (snd (route_process renv0 body0 store0)) ''u1'' = Some (alice\<lparr>balance := 950\<rparr>)"
    by (simp add: b)
  from pc0 fc_manual ok 1 w2 w3 4 rp fl(2,3) w5 w6 show ?thesis by (intro conjI)
qed

text \<open>
  C1 as stated fails: when the update of the balance comes back with an error after the
  insert has succeeded, the controller answers with the receipt and the route with its
  200, the row says \<^verbatim>\<open>success\<close> with a balance after of 950, and the account still
  holds 1000.
\<close>

theorem row_without_debit:
  "paid (fst (processPayment (env0\<lparr>balanceError := True\<rparr>) (fare (JStr ''cbd'') None) store0)) \<and>
   map txn_status
     (transactions (snd (processPayment (env0\<lparr>balanceError := True\<rparr>) (fare (JStr ''cbd'') None) store0))) =
     [''success''] \<and>
   map user_balance_after
     (transactions (snd (processPayment (env0\<lparr>balanceError := True\<rparr>) (fare (JStr ''cbd'') None) store0))) =
     [950] \<and>
   users (snd (processPayment (env0\<lparr>balanceError := True\<rparr>) (fare (JStr ''cbd'') None) store0)) ''u1'' =
     Some alice \<and>
   balance alice = 1000 \<and>
   fst (route_process (renv0\<lparr>r_balanceError := True\<rparr>) body0 store0) =
     json_data 200 \<lparr>d_transaction_id = ''txn-2'', d_reference_code = ''EMX1'', d_amount = 50,
                     new_balance = 950, d_timestamp = 2001\<rparr> \<and>
   map txn_status
     (transactions (snd (route_process (renv0\<lparr>r_balanceError := True\<rparr>) body0 store0))) =
     [''success''] \<and>
   users (snd (route_process (renv0\<lparr>r_balanceError := True\<rparr>) body0 store0)) ''u1'' = Some alice"
proof -
  let ?e = "env0\<lparr>balanceError := True\<rparr>"
  let ?r = "fare (JStr ''cbd'') None"
  let ?g = "renv0\<lparr>r_balanceError := True\<rparr>"
  have pc: "passes_checks ?e ?r store0 alice reader matatu"
    using pc0' [where x = False and y = True] by (simp add: env0_def)
  have eq: "processPayment ?e ?r store0 = commit ?e ?r alice reader matatu None store0"
    by (simp add: processPayment_at_gate [OF pc] fc_manual')
  have fl: "\<not> txnError ?e" "balanceError ?e" "\<not> txError ?g" "r_balanceError ?g"
    by (simp_all add: env0_def renv0_def)
  have 1: "paid (fst (processPayment ?e ?r store0))" unfolding eq by (simp add: commit_paid fl)
  have 2: "map txn_status (transactions (snd (processPayment ?e ?r store0))) = [''success'']"
    "map user_balance_after (transactions (snd (processPayment ?e ?r store0))) = [950]"
    unfolding eq
    by (simp_all add: commit_transactions fl new_transaction_fields store0_fields alice_def fare_fields)
  have 3: "users (snd (processPayment ?e ?r store0)) ''u1'' = Some alice"
    unfolding eq by (simp add: commit_users fl store0_fields)
  have 4: "fst (route_process ?g body0 store0) =
     json_data 200 \<lparr>d_transaction_id = ''txn-2'', d_reference_code = ''EMX1'', d_amount = 50,
                     new_balance = 950, d_timestamp = 2001\<rparr>"
    using route_process_commit(4) [OF rp0 [of True] fl(3)] by (simp add: renv0_def alice_def)
  have 5: "map txn_status (transactions (snd (route_process ?g body0 store0))) = [''success'']"
    by (simp add: route_process_commit(1) [OF rp0 [of True]] fl route_transaction_fields store0_fields)
  have 6: "users (snd (route_process ?g body0 store0)) ''u1'' = Some alice"
    by (simp add: route_process_commit(2) [OF rp0 [of True]] fl store0_fields)
  have 7: "balance alice = 1000" by (simp add: alice_def)
  from 1 2 3 7 4 5 6 show ?thesis by (intro conjI)
qed

section \<open>Balances over a sequence of charges\<close>







lemmas pp_eval =
  processPayment_def existingTxn_def single_def commit_def new_transaction_def
  update_balance_def fraud_check_def Let_def queued_notifications_def paid_def
  or_null_def or_null_num_def truthy_num_def

lemma s1: "users (snd (processPayment env0 (fare (JStr ''cbd'') None) store0)) ''u1'' = Some (alice\<lparr>balance := 950\<rparr>)"
  by (simp add: pp_eval sample_data)




section \<open>The commission split\<close>

lemma val_powi: "val (Double m e) = of_int m * 2 powi e"
  by (simp add: power_int_def field_simps)

lemma val_shift: "val (Double (m * 2 ^ k) e) = val (Double m (e + int k))"
  unfolding val_powi by (simp add: power_int_add)

lemma val_inj: "val (Double a g) = val (Double b g) \<Longrightarrow> a = b"
  unfolding val_powi by simp

lemma bitlen_mono: "x \<le> y \<Longrightarrow> bitlen x \<le> bitlen y"
  unfolding bitlen_def by (intro zle_int [THEN iffD2] floorlog_mono) simp

lemma round53_id: "bitlen \<bar>m\<bar> \<le> 53 \<Longrightarrow> round53 m e = Double m e"
  by (simp add: round53_def)

lemma round53_dvd:
  assumes "53 < bitlen \<bar>m\<bar>" "2 ^ nat (bitlen \<bar>m\<bar> - 53) dvd m"
  shows "val (round53 m e) = val (Double m e)"
proof -
  let ?sh = "nat (bitlen \<bar>m\<bar> - 53)"
  have sh: "0 < ?sh" using assms(1) by simp
  have r: "m mod 2 ^ ?sh = 0" using assms(2) by (simp add: mod_eq_0_iff_dvd)
  have half: "(0::int) < 2 ^ (?sh - 1)" by simp
  have "round53 m e = Double (m div 2 ^ ?sh) (e + int ?sh)"
    using assms(1) r half by (simp add: round53_def Let_def)
  also have "val \<dots> = val (Double ((m div 2 ^ ?sh) * 2 ^ ?sh) e)"
    by (simp only: val_shift)
  also have "(m div 2 ^ ?sh) * 2 ^ ?sh = m" using assms(2) by simp
  finally show ?thesis .
qed

lemma val_round53_representable:
  assumes eq: "val (Double M E) = val (Double m e)" and small: "bitlen \<bar>m\<bar> \<le> 53"
  shows "val (round53 M E) = val (Double m e)"
proof (cases "bitlen \<bar>M\<bar> \<le> 53")
  case True
  then show ?thesis using eq by (simp add: round53_id)
next
  case False
  then have big: "53 < bitlen \<bar>M\<bar>" by simp
  then have M0: "M \<noteq> 0" by auto
  have "2 ^ nat (bitlen \<bar>M\<bar> - 53) dvd M"
  proof (cases "e \<le> E")
    case True
    have ex: "e + int (nat (E - e)) = E" using True by simp
    have "val (Double (M * 2 ^ nat (E - e)) e) = val (Double M E)"
      by (simp only: val_shift ex)
    with eq have "val (Double m e) = val (Double (M * 2 ^ nat (E - e)) e)" by simp
    then have m: "m = M * 2 ^ nat (E - e)" by (rule val_inj)
    have "\<bar>M\<bar> * 1 \<le> \<bar>M\<bar> * 2 ^ nat (E - e)" by (intro mult_left_mono) simp_all
    then have "\<bar>M\<bar> \<le> \<bar>m\<bar>" unfolding m by (simp add: abs_mult)
    then have "bitlen \<bar>M\<bar> \<le> bitlen \<bar>m\<bar>" by (rule bitlen_mono)
    with big small show ?thesis by simp
  next
    case False
    let ?k = "nat (e - E)"
    have ex: "E + int ?k = e" using False by simp
    have "val (Double (m * 2 ^ ?k) E) = val (Double m e)"
      by (simp only: val_shift ex)
    with eq have "val (Double M E) = val (Double (m * 2 ^ ?k) E)" by simp
    then have M: "M = m * 2 ^ ?k" by (rule val_inj)
    with M0 have m0: "0 < \<bar>m\<bar>" by auto
    have "\<bar>M\<bar> = \<bar>m\<bar> * 2 ^ ?k" unfolding M by (simp add: abs_mult)
    then have "bitlen \<bar>M\<bar> = bitlen \<bar>m\<bar> + int ?k" using m0 by (simp only: bitlen_pow2)
    with small have "bitlen \<bar>M\<bar> - 53 \<le> int ?k" by linarith
    then have "nat (bitlen \<bar>M\<bar> - 53) \<le> ?k" by linarith
    then have "(2::int) ^ nat (bitlen \<bar>M\<bar> - 53) dvd 2 ^ ?k" by (rule le_imp_power_dvd)
    then show ?thesis unfolding M by (rule dvd_mult)
  qed
  with big have "val (round53 M E) = val (Double M E)" by (rule round53_dvd)
  with eq show ?thesis by simp
qed

lemma val_plus: "val (Double (a + b) g) = val (Double a g) + val (Double b g)"
  unfolding val_powi by (simp add: distrib_right)

lemma val_fadd_exact:
  "\<exists>M E. fadd x y = round53 M E \<and> val (Double M E) = val x + val y"
proof -
  obtain m1 e1 where x: "x = Double m1 e1" by (cases x)
  obtain m2 e2 where y: "y = Double m2 e2" by (cases y)
  let ?e = "min e1 e2"
  let ?M = "m1 * 2 ^ nat (e1 - ?e) + m2 * 2 ^ nat (e2 - ?e)"
  have x1: "?e + int (nat (e1 - ?e)) = e1" and x2: "?e + int (nat (e2 - ?e)) = e2" by simp_all
  have 1: "val (Double (m1 * 2 ^ nat (e1 - ?e)) ?e) = val (Double m1 e1)"
    by (simp only: val_shift x1)
  have 2: "val (Double (m2 * 2 ^ nat (e2 - ?e)) ?e) = val (Double m2 e2)"
    by (simp only: val_shift x2)
  have v: "val (Double ?M ?e) = val x + val y"
    unfolding x y by (simp only: val_plus 1 2)
  have f: "fadd x y = round53 ?M ?e"
    unfolding x y by (simp only: fadd.simps Let_def)
  from f v show ?thesis by blast
qed

lemma conservation_when_exact:
  assumes "bitlen \<bar>m\<bar> \<le> 53"
    and "val (net_amount64 (Double m e) rate) =
           val (Double m e) - val (merchant_commission64 (Double m e) rate)"
  shows "val (fadd (merchant_commission64 (Double m e) rate) (net_amount64 (Double m e) rate)) =
           val (Double m e)"
proof -
  obtain M E where f: "fadd (merchant_commission64 (Double m e) rate) (net_amount64 (Double m e) rate) = round53 M E"
    and v: "val (Double M E) = val (merchant_commission64 (Double m e) rate) + val (net_amount64 (Double m e) rate)"
    using val_fadd_exact by blast
  from v have "val (Double M E) = val (Double m e)" by (simp only: assms(2))
  from val_round53_representable [OF this assms(1)] show ?thesis by (simp only: f)
qed

text \<open>
  C6, as amended. Both payment paths compute the commission as the product of the
  amount and the rate and the net amount as the difference of the amount and the
  commission, and apply no rounding rule. In exact arithmetic the two add up to the
  amount. In the binary64 arithmetic of the source each of the two operations is
  rounded once, and the commission and the net amount add up to the amount whenever
  the subtraction is exact; otherwise they need not.
\<close>

theorem commission_split_conservation:
  "(merchant_commission (new_transaction e req u d m nearest) = amount req * commission_rate m \<and>
    net_amount (new_transaction e req u d m nearest) =
      amount req - merchant_commission (new_transaction e req u d m nearest) \<and>
    merchant_commission (new_transaction e req u d m nearest) +
      net_amount (new_transaction e req u d m nearest) =
      txn_amount (new_transaction e req u d m nearest)) \<and>
   (merchant_commission (route_transaction e' b amt u s) =
      amt * commissionRate s (b_merchant_id b) \<and>
    merchant_commission (route_transaction e' b amt u s) +
      net_amount (route_transaction e' b amt u s) =
      txn_amount (route_transaction e' b amt u s)) \<and>
   (bitlen \<bar>ma\<bar> \<le> 53 \<and>
    val (net_amount64 (Double ma ea) rate) =
      val (Double ma ea) - val (merchant_commission64 (Double ma ea) rate) \<longrightarrow>
      val (fadd (merchant_commission64 (Double ma ea) rate) (net_amount64 (Double ma ea) rate)) =
        val (Double ma ea))"
proof (intro conjI impI)
  assume "bitlen \<bar>ma\<bar> \<le> 53 \<and>
    val (net_amount64 (Double ma ea) rate) =
      val (Double ma ea) - val (merchant_commission64 (Double ma ea) rate)"
  then have a: "bitlen \<bar>ma\<bar> \<le> 53"
    "val (net_amount64 (Double ma ea) rate) =
      val (Double ma ea) - val (merchant_commission64 (Double ma ea) rate)"
    by (rule conjunct1, rule conjunct2)
  show "val (fadd (merchant_commission64 (Double ma ea) rate) (net_amount64 (Double ma ea) rate)) =
        val (Double ma ea)"
    by (rule conservation_when_exact [OF a])
qed (simp_all add: new_transaction_fields route_transaction_fields)

lemma bitlen_50: "bitlen \<bar>50\<bar> \<le> 53"
  by (simp add: bitlen_le_iff_power)

text \<open>
  The scenario of the specification: 50 at 5 percent gives a commission of 2.50 and a
  net amount of 47.50, exactly, in doubles as in exact arithmetic.
\<close>

theorem commission_split_conservation_witness:
  "\<bar>5 / 100 - val five_percent\<bar> < 1 / 2 ^ 58 \<and> val kes_50 = 50 \<and>
   val (merchant_commission64 kes_50 five_percent) = 5 / 2 \<and>
   val (net_amount64 kes_50 five_percent) = 95 / 2 \<and>
   val (fadd (merchant_commission64 kes_50 five_percent) (net_amount64 kes_50 five_percent)) = 50 \<and>
   merchant_commission (new_transaction env0 (fare (JStr ''cbd'') None) alice reader matatu None) = 5 / 2 \<and>
   net_amount (new_transaction env0 (fare (JStr ''cbd'') None) alice reader matatu None) = 95 / 2"
proof -
  have c: "merchant_commission64 kes_50 five_percent = Double 5629499534213120 (- 51)"
    unfolding kes_50_def five_percent_def by code_simp
  have n: "net_amount64 kes_50 five_percent = Double 6685030696878080 (- 47)"
    unfolding kes_50_def five_percent_def by code_simp
  have vc: "val (merchant_commission64 kes_50 five_percent) = 5 / 2" unfolding c by simp
  have vn: "val (net_amount64 kes_50 five_percent) = 95 / 2" unfolding n by simp
  have v50: "val kes_50 = 50" by (simp add: kes_50_def)
  have h: "bitlen \<bar>50\<bar> \<le> 53 \<and>
    val (net_amount64 (Double 50 0) five_percent) =
      val (Double 50 0) - val (merchant_commission64 (Double 50 0) five_percent)"
    using vc vn v50 bitlen_50 by (simp add: kes_50_def)
  note t = commission_split_conservation
    [where e = env0 and req = "fare (JStr ''cbd'') None" and u = alice and d = reader
       and m = matatu and nearest = None and ma = 50 and ea = 0 and rate = five_percent]
  from t [THEN conjunct2, THEN conjunct2, rule_format, OF h]
  have 1: "val (fadd (merchant_commission64 kes_50 five_percent) (net_amount64 kes_50 five_percent)) = 50"
    by (simp add: kes_50_def)
  from t [THEN conjunct1]
  have 2: "merchant_commission (new_transaction env0 (fare (JStr ''cbd'') None) alice reader matatu None) = 5 / 2"
    "net_amount (new_transaction env0 (fare (JStr ''cbd'') None) alice reader matatu None) = 95 / 2"
    by (simp_all add: fare_fields matatu_def)
  have 3: "\<bar>5 / 100 - val five_percent\<bar> < 1 / 2 ^ 58" by (simp add: five_percent_def)
  from 3 v50 vc vn 1 2 show ?thesis by (intro conjI)
qed

text \<open>
  C6 as stated fails: for the amount 12.40 and the rate 0.05 the double commission is
  0.6200000000000001 and the double net amount 11.780000000000001; their sum, exact or
  rounded, is not the amount (the rounded sum is 12.400000000000002).
\<close>

theorem commission_split_drifts:
  "\<bar>124 / 10 - val kes_12_40\<bar> < 1 / 2 ^ 50 \<and> \<bar>5 / 100 - val five_percent\<bar> < 1 / 2 ^ 58 \<and>
   0 \<le> val five_percent \<and> val five_percent < 1 \<and>
   merchant_commission64 kes_12_40 five_percent = Double 5584463537939416 (- 53) \<and>
   net_amount64 kes_12_40 five_percent = Double 6631550451303056 (- 49) \<and>
   fadd (merchant_commission64 kes_12_40 five_percent) (net_amount64 kes_12_40 five_percent) =
     Double 6980579422424270 (- 49) \<and>
   val (fadd (merchant_commission64 kes_12_40 five_percent) (net_amount64 kes_12_40 five_percent)) \<noteq>
     val kes_12_40 \<and>
   val (merchant_commission64 kes_12_40 five_percent) + val (net_amount64 kes_12_40 five_percent) \<noteq>
     val kes_12_40"
proof -
  have c: "merchant_commission64 kes_12_40 five_percent = Double 5584463537939416 (- 53)"
    unfolding kes_12_40_def five_percent_def by code_simp
  have n: "net_amount64 kes_12_40 five_percent = Double 6631550451303056 (- 49)"
    unfolding kes_12_40_def five_percent_def by code_simp
  have s: "fadd (Double 5584463537939416 (- 53)) (Double 6631550451303056 (- 49)) =
     Double 6980579422424270 (- 49)"
    by code_simp
  have 1: "\<bar>124 / 10 - val kes_12_40\<bar> < 1 / 2 ^ 50" "\<bar>5 / 100 - val five_percent\<bar> < 1 / 2 ^ 58"
    "0 \<le> val five_percent" "val five_percent < 1"
    by (simp_all add: kes_12_40_def five_percent_def)
  have 2: "val (Double 6980579422424270 (- 49)) \<noteq> val kes_12_40" by (simp add: kes_12_40_def)
  have 3: "val (Double 5584463537939416 (- 53)) + val (Double 6631550451303056 (- 49)) \<noteq> val kes_12_40"
    by (simp add: kes_12_40_def)
  show ?thesis unfolding c n s using 1 2 3 by (intro conjI) simp_all
qed

end
